theory Spec2Isabelle
  imports Main "HOL-Library.AList" "HOL-Library.Char_ord" "HOL-Library.List_Lexorder"
begin

section \<open>The student-records chaincode\<close>

text \<open>
  The chaincode keeps one JSON document per student in the world state, keyed by the
  student's ID. Byte slices and Go strings are both \<open>string\<close> (a list of bytes).
\<close>

type_synonym bytes = string

record Student =
  ID :: string
  Name :: string
  Branch :: string
  CGPA :: string

text \<open>
  \<open>encoding/json\<close> is a library of the Go distribution: the chaincode is modelled over
  any codec, given as a record of the three conversions it uses. \<open>json_Marshal\<close> is
  \<open>json.Marshal\<close> on a \<open>Student\<close>, \<open>json_Unmarshal\<close> is \<open>json.Unmarshal\<close> into a
  \<open>Student\<close>, \<open>json_MarshalList\<close> is \<open>json.Marshal\<close> on a slice of students.
\<close>

record codec =
  json_Marshal :: "Student \<Rightarrow> string + bytes"
  json_Unmarshal :: "bytes \<Rightarrow> string + Student"
  json_MarshalList :: "Student list \<Rightarrow> string + bytes"

text \<open>
  The world state is an association list from keys to values. The stub's calls reach the
  peer's state database and can fail there: \<open>peer\<close> says, for one transaction
  simulation, which calls fail and with which message.
\<close>

type_synonym world = "(string \<times> bytes) list"

record peer =
  getErr :: "string \<Rightarrow> string option"
  putErr :: "string \<Rightarrow> bytes \<Rightarrow> string option"
  rangeErr :: "string option"
  nextErr :: "nat \<Rightarrow> string option"

datatype cc_error =
    StubError string
  | PutFailed string
  | ReadFailed string
  | AlreadyExists string
  | DoesNotExist string
  | JsonError string
  | FunctionNotFound string
  | IncorrectParams nat nat

definition GetState :: "peer \<Rightarrow> world \<Rightarrow> string \<Rightarrow> string + bytes option" where
  "GetState pe w key =
     (case getErr pe key of Some e \<Rightarrow> Inl e | None \<Rightarrow> Inr (map_of w key))"

definition PutState :: "peer \<Rightarrow> world \<Rightarrow> string \<Rightarrow> bytes \<Rightarrow> string + world" where
  "PutState pe w key v =
     (case putErr pe key v of Some e \<Rightarrow> Inl e | None \<Rightarrow> Inr (AList.update key v w))"

text \<open>\<open>GetStateByRange("", "")\<close>: every entry, in the order of the keys.\<close>

definition GetStateByRange :: "peer \<Rightarrow> world \<Rightarrow> string + (string \<times> bytes) list" where
  "GetStateByRange pe w =
     (case rangeErr pe of Some e \<Rightarrow> Inl e | None \<Rightarrow> Inr (sort_key fst w))"

definition initialStudents :: "Student list" where
  "initialStudents =
     [\<lparr>ID = ''S1'', Name = ''Alice'', Branch = ''CSE'', CGPA = ''9.1''\<rparr>,
      \<lparr>ID = ''S2'', Name = ''Bob'', Branch = ''ECE'', CGPA = ''8.5''\<rparr>]"

text \<open>The loop of \<open>InitLedger\<close> over its slice of students.\<close>

fun putStudents :: "codec \<Rightarrow> peer \<Rightarrow> world \<Rightarrow> Student list \<Rightarrow> cc_error + world" where
  "putStudents cd pe w [] = Inr w"
| "putStudents cd pe w (student # rest) =
     (case json_Marshal cd student of
        Inl e \<Rightarrow> Inl (JsonError e)
      | Inr studentJSON \<Rightarrow>
          (case PutState pe w (ID student) studentJSON of
             Inl e \<Rightarrow> Inl (PutFailed e)
           | Inr w' \<Rightarrow> putStudents cd pe w' rest))"

definition InitLedger :: "codec \<Rightarrow> peer \<Rightarrow> world \<Rightarrow> cc_error + world" where
  "InitLedger cd pe w = putStudents cd pe w initialStudents"

definition StudentExists :: "peer \<Rightarrow> world \<Rightarrow> string \<Rightarrow> cc_error + bool" where
  "StudentExists pe w sid =
     (case GetState pe w sid of
        Inl e \<Rightarrow> Inl (StubError e)
      | Inr studentJSON \<Rightarrow> Inr (studentJSON \<noteq> None))"

definition CreateStudent ::
  "codec \<Rightarrow> peer \<Rightarrow> world \<Rightarrow> string \<Rightarrow> string \<Rightarrow> string \<Rightarrow> string \<Rightarrow> cc_error + world" where
  "CreateStudent cd pe w sid name branch cgpa =
     (case StudentExists pe w sid of
        Inl e \<Rightarrow> Inl e
      | Inr exists \<Rightarrow>
          if exists then Inl (AlreadyExists sid)
          else
            (case json_Marshal cd \<lparr>ID = sid, Name = name, Branch = branch, CGPA = cgpa\<rparr> of
               Inl e \<Rightarrow> Inl (JsonError e)
             | Inr studentJSON \<Rightarrow>
                 (case PutState pe w sid studentJSON of
                    Inl e \<Rightarrow> Inl (StubError e)
                  | Inr w' \<Rightarrow> Inr w')))"

definition ReadStudent :: "codec \<Rightarrow> peer \<Rightarrow> world \<Rightarrow> string \<Rightarrow> cc_error + Student" where
  "ReadStudent cd pe w sid =
     (case GetState pe w sid of
        Inl e \<Rightarrow> Inl (ReadFailed e)
      | Inr None \<Rightarrow> Inl (DoesNotExist sid)
      | Inr (Some studentJSON) \<Rightarrow>
          (case json_Unmarshal cd studentJSON of
             Inl e \<Rightarrow> Inl (JsonError e)
           | Inr student \<Rightarrow> Inr student))"

text \<open>
  The loop of \<open>GetAllStudents\<close>: \<open>i\<close> counts the calls of \<open>Next\<close>, \<open>students\<close> is the
  slice built so far.
\<close>

fun collectStudents ::
  "codec \<Rightarrow> peer \<Rightarrow> nat \<Rightarrow> (string \<times> bytes) list \<Rightarrow> Student list \<Rightarrow> cc_error + Student list" where
  "collectStudents cd pe i [] students = Inr students"
| "collectStudents cd pe i (queryResponse # rest) students =
     (case nextErr pe i of
        Some e \<Rightarrow> Inl (StubError e)
      | None \<Rightarrow>
          (case json_Unmarshal cd (snd queryResponse) of
             Inl e \<Rightarrow> Inl (JsonError e)
           | Inr student \<Rightarrow> collectStudents cd pe (Suc i) rest (students @ [student])))"

definition GetAllStudents :: "codec \<Rightarrow> peer \<Rightarrow> world \<Rightarrow> cc_error + Student list" where
  "GetAllStudents cd pe w =
     (case GetStateByRange pe w of
        Inl e \<Rightarrow> Inl (StubError e)
      | Inr resultsIterator \<Rightarrow> collectStudents cd pe 0 resultsIterator [])"

text \<open>
  The contract API is library code, outside the repository and the specification. It
  exposes the exported methods of \<open>SmartContract\<close> as transaction functions under
  their names. \<open>transactions\<close> lists them, each with the parameters that follow the
  transaction context in the source.
\<close>

definition transactions :: "(string \<times> string list) list" where
  "transactions =
     [(''InitLedger'', []),
      (''CreateStudent'', [''id'', ''name'', ''branch'', ''cgpa'']),
      (''ReadStudent'', [''id'']),
      (''GetAllStudents'', []),
      (''StudentExists'', [''id''])]"

definition returnStudent :: "codec \<Rightarrow> world \<Rightarrow> Student \<Rightarrow> cc_error + bytes \<times> world" where
  "returnStudent cd w student =
     (case json_Marshal cd student of Inl e \<Rightarrow> Inl (JsonError e) | Inr b \<Rightarrow> Inr (b, w))"

definition returnStudents :: "codec \<Rightarrow> world \<Rightarrow> Student list \<Rightarrow> cc_error + bytes \<times> world" where
  "returnStudents cd w students =
     (case json_MarshalList cd students of Inl e \<Rightarrow> Inl (JsonError e) | Inr b \<Rightarrow> Inr (b, w))"

text \<open>
  The dispatcher of the contract API, after the behaviour of the library: \<open>fn\<close> is the
  name of the function in the contract, as the library looks it up (it has split off a
  contract name and put the first letter in upper case before). A name that is no
  transaction function is answered with an error, and so is a call with fewer arguments
  than the function has parameters. Otherwise the function is called with the
  arguments in order, one for each parameter; arguments after the last parameter are
  not used. The value returned is serialised to the payload. The result is the payload
  together with the world state the simulation leaves.
\<close>

definition invoke ::
  "codec \<Rightarrow> peer \<Rightarrow> world \<Rightarrow> string \<Rightarrow> string list \<Rightarrow> cc_error + bytes \<times> world" where
  "invoke cd pe w fn args =
     (case map_of transactions fn of
        None \<Rightarrow> Inl (FunctionNotFound fn)
      | Some params \<Rightarrow>
          if length args < length params
          then Inl (IncorrectParams (length params) (length args))
          else if fn = ''InitLedger'' then
            (case InitLedger cd pe w of Inl e \<Rightarrow> Inl e | Inr w' \<Rightarrow> Inr ([], w'))
          else if fn = ''CreateStudent'' then
            (case args of
               sid # name # branch # cgpa # _ \<Rightarrow>
                 (case CreateStudent cd pe w sid name branch cgpa of
                    Inl e \<Rightarrow> Inl e
                  | Inr w' \<Rightarrow> Inr ([], w'))
             | _ \<Rightarrow> Inl (IncorrectParams 4 (length args)))
          else if fn = ''ReadStudent'' then
            (case args of
               sid # _ \<Rightarrow>
                 (case ReadStudent cd pe w sid of
                    Inl e \<Rightarrow> Inl e
                  | Inr student \<Rightarrow> returnStudent cd w student)
             | _ \<Rightarrow> Inl (IncorrectParams 1 (length args)))
          else if fn = ''GetAllStudents'' then
            (case GetAllStudents cd pe w of
               Inl e \<Rightarrow> Inl e
             | Inr students \<Rightarrow> returnStudents cd w students)
          else if fn = ''StudentExists'' then
            (case args of
               sid # _ \<Rightarrow>
                 (case StudentExists pe w sid of
                    Inl e \<Rightarrow> Inl e
                  | Inr exists \<Rightarrow> Inr (if exists then ''true'' else ''false'', w))
             | _ \<Rightarrow> Inl (IncorrectParams 1 (length args)))
          else Inl (FunctionNotFound fn))"

section \<open>The gateway client\<close>

text \<open>
  The gateway client library (\<open>EvaluateTransaction\<close>, \<open>SubmitTransaction\<close>) is not part
  of the repository: its two modes follow section 4.5 of the specification. A fault of
  the network is that the other side cannot be reached or that the deadline of the
  phase has passed; the cause of an error is such a fault or the error the contract
  returned. \<open>net\<close> says how the network behaves during one call: the transaction ID,
  the fault of each phase if any, and the validation code of the transaction (0 is
  valid).
\<close>

datatype io_fault = Unavailable string | Timeout

datatype cause = Application cc_error | Transport string | DeadlineExceeded

fun io_cause :: "io_fault \<Rightarrow> cause" where
  "io_cause (Unavailable m) = Transport m"
| "io_cause Timeout = DeadlineExceeded"

datatype gateway_error =
    EvaluateError string cause
  | EndorseError string cause
  | SubmitError string cause
  | CommitStatusError string cause
  | CommitError string int
  | OtherError string

record net =
  transactionID :: string
  evaluateFault :: "io_fault option"
  endorseFault :: "io_fault option"
  submitFault :: "io_fault option"
  statusFault :: "io_fault option"
  validationCode :: int

text \<open>
  Modelled from the spec: \<open>EvaluateTransaction\<close> of the gateway library, section 4.5. An
  evaluation runs the operation on one peer and returns its payload, or fails with an
  \<open>EvaluateError\<close> naming the operation; nothing is ordered or committed, so the ledger
  stays as it is.
\<close>

definition evaluate ::
  "codec \<Rightarrow> peer \<Rightarrow> net \<Rightarrow> world \<Rightarrow> string \<Rightarrow> string list \<Rightarrow> (gateway_error + bytes) \<times> world" where
  "evaluate cd pe nt w fn args =
     (case evaluateFault nt of
        Some f \<Rightarrow> (Inl (EvaluateError fn (io_cause f)), w)
      | None \<Rightarrow>
          (case invoke cd pe w fn args of
             Inl e \<Rightarrow> (Inl (EvaluateError fn (Application e)), w)
           | Inr (payload, w') \<Rightarrow> (Inr payload, w)))"

text \<open>
  Modelled from the spec: \<open>SubmitTransaction\<close> of the gateway library, section 4.5. A
  submission passes four phases in order: endorsement, where an error of the contract
  surfaces; submission to ordering; the wait for the commit status; and the check of
  the validation outcome. Each failure carries the transaction ID. Only a transaction
  that was ordered and is valid changes the ledger, also when the client could not
  retrieve its status.
\<close>

definition submit ::
  "codec \<Rightarrow> peer \<Rightarrow> net \<Rightarrow> world \<Rightarrow> string \<Rightarrow> string list \<Rightarrow> (gateway_error + bytes) \<times> world" where
  "submit cd pe nt w fn args =
     (case endorseFault nt of
        Some f \<Rightarrow> (Inl (EndorseError (transactionID nt) (io_cause f)), w)
      | None \<Rightarrow>
          (case invoke cd pe w fn args of
             Inl e \<Rightarrow> (Inl (EndorseError (transactionID nt) (Application e)), w)
           | Inr (payload, w') \<Rightarrow>
               (case submitFault nt of
                  Some f \<Rightarrow> (Inl (SubmitError (transactionID nt) (io_cause f)), w)
                | None \<Rightarrow>
                    (let committed = (if validationCode nt = 0 then w' else w) in
                     case statusFault nt of
                       Some f \<Rightarrow>
                         (Inl (CommitStatusError (transactionID nt) (io_cause f)), committed)
                     | None \<Rightarrow>
                         if validationCode nt = 0 then (Inr payload, committed)
                         else (Inl (CommitError (transactionID nt) (validationCode nt)),
                               committed)))))"

section \<open>The REST server: start-up\<close>

definition mspID :: string where
  "mspID = ''Org1MSP''"

definition cryptoPath :: string where
  "cryptoPath = ''../../test-network/organizations/peerOrganizations/org1.example.com''"

definition certPath :: string where
  "certPath = cryptoPath @ ''/users/User1@org1.example.com/msp/signcerts''"

definition keyPath :: string where
  "keyPath = cryptoPath @ ''/users/User1@org1.example.com/msp/keystore''"

definition tlsCertPath :: string where
  "tlsCertPath = cryptoPath @ ''/peers/peer0.org1.example.com/tls/ca.crt''"

definition peerEndpoint :: string where
  "peerEndpoint = ''dns:///localhost:7051''"

definition gatewayPeer :: string where
  "gatewayPeer = ''peer0.org1.example.com''"

text \<open>
  The operating system as the start-up code uses it. \<open>os_Open\<close> opens a path: an
  error, or a handle that is a directory with its entry names in the order
  \<open>Readdirnames\<close> yields them (\<open>Some names\<close>) or is no directory (\<open>None\<close>).
\<close>

record os =
  os_Open :: "string \<Rightarrow> string + string list option"
  os_ReadFile :: "string \<Rightarrow> string + bytes"
  path_Join :: "string \<Rightarrow> string \<Rightarrow> string"
  os_Getenv :: "string \<Rightarrow> string"

datatype certificate = Certificate bytes

datatype private_key = PrivateKey bytes

datatype signer = Signer private_key

record X509Identity =
  idMspID :: string
  idCertificate :: certificate

text \<open>
  The parsers and constructors of the identity package and the check \<open>grpc.Dial\<close> makes
  of its target are library code, taken as parameters.
\<close>

record lib =
  CertificateFromPEM :: "bytes \<Rightarrow> string + certificate"
  NewX509Identity :: "string \<Rightarrow> certificate \<Rightarrow> string + X509Identity"
  PrivateKeyFromPEM :: "bytes \<Rightarrow> string + private_key"
  NewPrivateKeySign :: "private_key \<Rightarrow> string + signer"
  dialError :: "string \<Rightarrow> string option"

text \<open>
  Every failure of the start-up code is a panic. The first four carry the message the
  source wraps the error in; \<open>LibraryPanic\<close> is \<open>panic(err)\<close> with the error of a
  parser, a constructor or \<open>client.Connect\<close>.
\<close>

datatype startup_panic =
    FailedToReadTLSCertificate string
  | FailedToCreateConnection string
  | FailedToReadCertificate string
  | FailedToReadPrivateKey string
  | LibraryPanic string

definition Readdirnames :: "string list option \<Rightarrow> nat \<Rightarrow> string + string list" where
  "Readdirnames dir n =
     (case dir of
        None \<Rightarrow> Inl ''not a directory''
      | Some names \<Rightarrow>
          if 0 < n then (if names = [] then Inl ''EOF'' else Inr (take n names))
          else Inr names)"

text \<open>
  \<open>readFirstFile\<close> threads the list of the files read so far: it grows by the path handed
  to \<open>os.ReadFile\<close>. The index \<open>fileNames[0]\<close> is written out.
\<close>

definition readFirstFile :: "os \<Rightarrow> string \<Rightarrow> string list \<Rightarrow> (string + bytes) \<times> string list" where
  "readFirstFile sys dirPath filesRead =
     (case os_Open sys dirPath of
        Inl e \<Rightarrow> (Inl e, filesRead)
      | Inr dir \<Rightarrow>
          (case Readdirnames dir 1 of
             Inl e \<Rightarrow> (Inl e, filesRead)
           | Inr fileNames \<Rightarrow>
               (case fileNames of
                  [] \<Rightarrow> (Inl ''index out of range'', filesRead)
                | first # _ \<Rightarrow>
                    (os_ReadFile sys (path_Join sys dirPath first),
                     filesRead @ [path_Join sys dirPath first]))))"

definition newIdentity ::
  "os \<Rightarrow> lib \<Rightarrow> string list \<Rightarrow> (startup_panic + X509Identity) \<times> string list" where
  "newIdentity sys lb filesRead =
     (case readFirstFile sys certPath filesRead of
        (Inl e, filesRead') \<Rightarrow> (Inl (FailedToReadCertificate e), filesRead')
      | (Inr certificatePEM, filesRead') \<Rightarrow>
          (case CertificateFromPEM lb certificatePEM of
             Inl e \<Rightarrow> (Inl (LibraryPanic e), filesRead')
           | Inr cert \<Rightarrow>
               (case NewX509Identity lb mspID cert of
                  Inl e \<Rightarrow> (Inl (LibraryPanic e), filesRead')
                | Inr ident \<Rightarrow> (Inr ident, filesRead'))))"

definition newSign ::
  "os \<Rightarrow> lib \<Rightarrow> string list \<Rightarrow> (startup_panic + signer) \<times> string list" where
  "newSign sys lb filesRead =
     (case readFirstFile sys keyPath filesRead of
        (Inl e, filesRead') \<Rightarrow> (Inl (FailedToReadPrivateKey e), filesRead')
      | (Inr privateKeyPEM, filesRead') \<Rightarrow>
          (case PrivateKeyFromPEM lb privateKeyPEM of
             Inl e \<Rightarrow> (Inl (LibraryPanic e), filesRead')
           | Inr privateKey \<Rightarrow>
               (case NewPrivateKeySign lb privateKey of
                  Inl e \<Rightarrow> (Inl (LibraryPanic e), filesRead')
                | Inr sign \<Rightarrow> (Inr sign, filesRead'))))"

text \<open>
  A certificate pool is the list of its certificates; \<open>AddCert\<close> keeps a certificate
  that is already there once.
\<close>

type_synonym cert_pool = "certificate list"

definition NewCertPool :: cert_pool where
  "NewCertPool = []"

definition AddCert :: "cert_pool \<Rightarrow> certificate \<Rightarrow> cert_pool" where
  "AddCert pool cert = (if cert \<in> set pool then pool else pool @ [cert])"

record TransportCredentials =
  rootCAs :: cert_pool
  serverName :: string

definition NewClientTLSFromCert :: "cert_pool \<Rightarrow> string \<Rightarrow> TransportCredentials" where
  "NewClientTLSFromCert pool serverNameOverride =
     \<lparr>rootCAs = pool, serverName = serverNameOverride\<rparr>"

record ClientConn =
  target :: string
  credentials :: TransportCredentials
  handshakeDone :: bool

text \<open>
  Modelled from the spec: \<open>grpc.Dial\<close> is library code. By section 4.2 of the
  specification establishing the connection does not block: the call checks its
  target and returns a connection whose handshake is left to the first use.
\<close>

definition grpc_Dial :: "lib \<Rightarrow> string \<Rightarrow> TransportCredentials \<Rightarrow> string + ClientConn" where
  "grpc_Dial lb tgt creds =
     (case dialError lb tgt of
        Some e \<Rightarrow> Inl e
      | None \<Rightarrow> Inr \<lparr>target = tgt, credentials = creds, handshakeDone = False\<rparr>)"

definition newGrpcConnection ::
  "os \<Rightarrow> lib \<Rightarrow> string list \<Rightarrow> (startup_panic + ClientConn) \<times> string list" where
  "newGrpcConnection sys lb filesRead =
     (case os_ReadFile sys tlsCertPath of
        Inl e \<Rightarrow> (Inl (FailedToReadTLSCertificate e), filesRead @ [tlsCertPath])
      | Inr certificatePEM \<Rightarrow>
          (case CertificateFromPEM lb certificatePEM of
             Inl e \<Rightarrow> (Inl (LibraryPanic e), filesRead @ [tlsCertPath])
           | Inr cert \<Rightarrow>
               (let certPool = AddCert NewCertPool cert;
                    transportCredentials = NewClientTLSFromCert certPool gatewayPeer
                in case grpc_Dial lb peerEndpoint transportCredentials of
                     Inl e \<Rightarrow> (Inl (FailedToCreateConnection e), filesRead @ [tlsCertPath])
                   | Inr connection \<Rightarrow> (Inr connection, filesRead @ [tlsCertPath]))))"

text \<open>Durations are \<open>time.Duration\<close>: a count of nanoseconds.\<close>

type_synonym duration = int

definition Second :: duration where
  "Second = 1000000000"

definition Minute :: duration where
  "Minute = 60 * Second"

datatype hash_alg = SHA256

datatype connect_option =
    WithSign signer
  | WithHash hash_alg
  | WithClientConnection ClientConn
  | WithEvaluateTimeout duration
  | WithEndorseTimeout duration
  | WithSubmitTimeout duration
  | WithCommitStatusTimeout duration

record Gateway =
  signingID :: X509Identity
  signFn :: "signer option"
  hashFn :: "hash_alg option"
  clientConn :: "ClientConn option"
  evaluateTimeout :: "duration option"
  endorseTimeout :: "duration option"
  submitTimeout :: "duration option"
  commitStatusTimeout :: "duration option"

text \<open>
  Modelled from the spec: the options of \<open>client.Connect\<close>, library code. By section 4.3
  of the specification a session is an identity, a signer, a channel and the four
  timeouts; each option sets its part of the session.
\<close>

fun applyOption :: "connect_option \<Rightarrow> Gateway \<Rightarrow> Gateway" where
  "applyOption (WithSign s) g = g\<lparr>signFn := Some s\<rparr>"
| "applyOption (WithHash h) g = g\<lparr>hashFn := Some h\<rparr>"
| "applyOption (WithClientConnection c) g = g\<lparr>clientConn := Some c\<rparr>"
| "applyOption (WithEvaluateTimeout d) g = g\<lparr>evaluateTimeout := Some d\<rparr>"
| "applyOption (WithEndorseTimeout d) g = g\<lparr>endorseTimeout := Some d\<rparr>"
| "applyOption (WithSubmitTimeout d) g = g\<lparr>submitTimeout := Some d\<rparr>"
| "applyOption (WithCommitStatusTimeout d) g = g\<lparr>commitStatusTimeout := Some d\<rparr>"

text \<open>
  Modelled from the spec: \<open>client.Connect\<close>, library code, section 4.3. The options are
  applied in order to a session that has the identity and nothing else; a session
  without a channel is refused. Opening does no network input or output.
\<close>

definition client_Connect :: "X509Identity \<Rightarrow> connect_option list \<Rightarrow> string + Gateway" where
  "client_Connect ident options =
     (let g = fold applyOption options
                \<lparr>signingID = ident, signFn = None, hashFn = None, clientConn = None,
                 evaluateTimeout = None, endorseTimeout = None, submitTimeout = None,
                 commitStatusTimeout = None\<rparr>
      in if clientConn g = None then Inl ''no connection details supplied'' else Inr g)"

record Network =
  networkGateway :: Gateway
  channelName :: string

record Contract =
  contractNetwork :: Network
  chaincodeName :: string

definition GetNetwork :: "Gateway \<Rightarrow> string \<Rightarrow> Network" where
  "GetNetwork g name = \<lparr>networkGateway = g, channelName = name\<rparr>"

definition GetContract :: "Network \<Rightarrow> string \<Rightarrow> Contract" where
  "GetContract n name = \<lparr>contractNetwork = n, chaincodeName = name\<rparr>"

text \<open>
  The package-level variables \<open>contract\<close>, \<open>network\<close> and \<open>gw\<close> (\<open>None\<close> is \<open>nil\<close>),
  with the list of the files the process has read.
\<close>

record app =
  contract :: "Contract option"
  network :: "Network option"
  gw :: "Gateway option"
  filesRead :: "string list"

definition startApp :: app where
  "startApp = \<lparr>contract = None, network = None, gw = None, filesRead = []\<rparr>"

definition initFabricClient :: "os \<Rightarrow> lib \<Rightarrow> app \<Rightarrow> startup_panic + app" where
  "initFabricClient sys lb a =
     (case newGrpcConnection sys lb (filesRead a) of
        (Inl p, _) \<Rightarrow> Inl p
      | (Inr clientConnection, read1) \<Rightarrow>
          (case newIdentity sys lb read1 of
             (Inl p, _) \<Rightarrow> Inl p
           | (Inr ident, read2) \<Rightarrow>
               (case newSign sys lb read2 of
                  (Inl p, _) \<Rightarrow> Inl p
                | (Inr sign, read3) \<Rightarrow>
                    (case client_Connect ident
                            [WithSign sign, WithHash SHA256,
                             WithClientConnection clientConnection,
                             WithEvaluateTimeout (5 * Second),
                             WithEndorseTimeout (15 * Second),
                             WithSubmitTimeout (5 * Second),
                             WithCommitStatusTimeout (1 * Minute)] of
                       Inl e \<Rightarrow> Inl (LibraryPanic e)
                     | Inr g \<Rightarrow>
                         (let ccName =
                                (if os_Getenv sys ''CHAINCODE_NAME'' \<noteq> []
                                 then os_Getenv sys ''CHAINCODE_NAME'' else ''studentrecords'');
                              chName =
                                (if os_Getenv sys ''CHANNEL_NAME'' \<noteq> []
                                 then os_Getenv sys ''CHANNEL_NAME'' else ''mychannel'');
                              nw = GetNetwork g chName
                          in Inr \<lparr>contract = Some (GetContract nw ccName),
                                  network = Some nw, gw = Some g, filesRead = read3\<rparr>)))))"

section \<open>The REST server: request handlers\<close>

record ApiStudent =
  apiID :: string
  apiName :: string
  apiDepartment :: string
  apiYear :: string
  apiCGPA :: string

text \<open>
  What the gateway is asked to do: an operation name with its ordered string arguments,
  in one of the two modes. The remote side is the ledger together with the invocations
  it has received, oldest first.
\<close>

datatype mode = Evaluate | Submit

record invocation =
  mode :: mode
  operation :: string
  arguments :: "string list"

record remote =
  ledger :: world
  calls :: "invocation list"

definition EvaluateTransaction ::
  "codec \<Rightarrow> peer \<Rightarrow> net \<Rightarrow> Contract \<Rightarrow> remote \<Rightarrow> string \<Rightarrow> string list
   \<Rightarrow> (gateway_error + bytes) \<times> remote" where
  "EvaluateTransaction cd pe nt ct r name args =
     (case evaluate cd pe nt (ledger r) name args of
        (result, w') \<Rightarrow>
          (result,
           r\<lparr>ledger := w',
             calls := calls r @ [\<lparr>mode = Evaluate, operation = name, arguments = args\<rparr>]\<rparr>))"

definition SubmitTransaction ::
  "codec \<Rightarrow> peer \<Rightarrow> net \<Rightarrow> Contract \<Rightarrow> remote \<Rightarrow> string \<Rightarrow> string list
   \<Rightarrow> (gateway_error + bytes) \<times> remote" where
  "SubmitTransaction cd pe nt ct r name args =
     (case submit cd pe nt (ledger r) name args of
        (result, w') \<Rightarrow>
          (result,
           r\<lparr>ledger := w',
             calls := calls r @ [\<lparr>mode = Submit, operation = name, arguments = args\<rparr>]\<rparr>))"

text \<open>
  JSON values, and the decoders of the web framework and of \<open>encoding/json\<close> that the
  handlers call, as parameters: \<open>ShouldBindJSON\<close> into a \<open>Student\<close> of the server,
  \<open>json.Unmarshal\<close> into a map and into a slice of maps.
\<close>

datatype json =
    JNull
  | JBool bool
  | JNumber string
  | JString string
  | JArray "json list"
  | JObject "(string \<times> json) list"

record web =
  ShouldBindJSON :: "bytes \<Rightarrow> string + ApiStudent"
  unmarshalMap :: "bytes \<Rightarrow> string + json"
  unmarshalMaps :: "bytes \<Rightarrow> string + json"

text \<open>
  A response is a status code and a body. \<open>ErrorMessage prefix err\<close> is the object
  \<open>{"error": prefix + ": " + err}\<close>; \<open>Recovered\<close> is the answer of the recovery
  middleware to a panic of a handler, \<open>NoRoute\<close> the answer to a request no route matches.
\<close>

datatype failure = BindFailure string | GatewayFailure gateway_error | ParseFailure string

datatype payload =
    ErrorMessage string failure
  | Message string
  | Document json
  | StudentDocument ApiStudent
  | Recovered
  | NoRoute

record response =
  status :: nat
  body :: payload

record gin_Context =
  Param :: "string \<Rightarrow> string"
  requestBody :: bytes

definition recovered :: response where
  "recovered = \<lparr>status = 500, body = Recovered\<rparr>"

definition initLedger ::
  "codec \<Rightarrow> peer \<Rightarrow> net \<Rightarrow> gin_Context \<Rightarrow> app \<Rightarrow> remote \<Rightarrow> response \<times> app \<times> remote" where
  "initLedger cd pe nt c a r =
     (case contract a of
        None \<Rightarrow> (recovered, a, r)
      | Some ct \<Rightarrow>
          (case SubmitTransaction cd pe nt ct r ''InitLedger'' [] of
             (Inl err, r') \<Rightarrow>
               (\<lparr>status = 500,
                 body = ErrorMessage ''Failed to initialize ledger'' (GatewayFailure err)\<rparr>, a, r')
           | (Inr _, r') \<Rightarrow>
               (\<lparr>status = 200, body = Message ''Ledger initialized successfully''\<rparr>, a, r')))"

definition getAllStudents ::
  "codec \<Rightarrow> web \<Rightarrow> peer \<Rightarrow> net \<Rightarrow> gin_Context \<Rightarrow> app \<Rightarrow> remote \<Rightarrow> response \<times> app \<times> remote" where
  "getAllStudents cd wb pe nt c a r =
     (case contract a of
        None \<Rightarrow> (recovered, a, r)
      | Some ct \<Rightarrow>
          (case EvaluateTransaction cd pe nt ct r ''GetAllStudents'' [] of
             (Inl err, r') \<Rightarrow>
               (\<lparr>status = 500,
                 body = ErrorMessage ''Failed to get students'' (GatewayFailure err)\<rparr>, a, r')
           | (Inr result, r') \<Rightarrow>
               (case unmarshalMaps wb result of
                  Inl e \<Rightarrow>
                    (\<lparr>status = 500,
                      body = ErrorMessage ''Failed to parse student data'' (ParseFailure e)\<rparr>,
                     a, r')
                | Inr students \<Rightarrow> (\<lparr>status = 200, body = Document students\<rparr>, a, r'))))"

definition getStudentByID ::
  "codec \<Rightarrow> web \<Rightarrow> peer \<Rightarrow> net \<Rightarrow> gin_Context \<Rightarrow> app \<Rightarrow> remote \<Rightarrow> response \<times> app \<times> remote" where
  "getStudentByID cd wb pe nt c a r =
     (let sid = Param c ''id'' in
      case contract a of
        None \<Rightarrow> (recovered, a, r)
      | Some ct \<Rightarrow>
          (case EvaluateTransaction cd pe nt ct r ''ReadStudent'' [sid] of
             (Inl err, r') \<Rightarrow>
               (\<lparr>status = 404,
                 body = ErrorMessage ''Student not found'' (GatewayFailure err)\<rparr>, a, r')
           | (Inr result, r') \<Rightarrow>
               (case unmarshalMap wb result of
                  Inl e \<Rightarrow>
                    (\<lparr>status = 500,
                      body = ErrorMessage ''Failed to parse student data'' (ParseFailure e)\<rparr>,
                     a, r')
                | Inr student \<Rightarrow> (\<lparr>status = 200, body = Document student\<rparr>, a, r'))))"

definition createStudent ::
  "codec \<Rightarrow> web \<Rightarrow> peer \<Rightarrow> net \<Rightarrow> gin_Context \<Rightarrow> app \<Rightarrow> remote \<Rightarrow> response \<times> app \<times> remote" where
  "createStudent cd wb pe nt c a r =
     (case ShouldBindJSON wb (requestBody c) of
        Inl e \<Rightarrow>
          (\<lparr>status = 400, body = ErrorMessage ''Invalid request body'' (BindFailure e)\<rparr>, a, r)
      | Inr student \<Rightarrow>
          (case contract a of
             None \<Rightarrow> (recovered, a, r)
           | Some ct \<Rightarrow>
               (case SubmitTransaction cd pe nt ct r ''CreateStudent''
                       [apiID student, apiName student, apiDepartment student,
                        apiYear student, apiCGPA student] of
                  (Inl err, r') \<Rightarrow>
                    (\<lparr>status = 500,
                      body = ErrorMessage ''Failed to create student'' (GatewayFailure err)\<rparr>,
                     a, r')
                | (Inr _, r') \<Rightarrow> (\<lparr>status = 201, body = StudentDocument student\<rparr>, a, r'))))"

definition updateStudent ::
  "codec \<Rightarrow> web \<Rightarrow> peer \<Rightarrow> net \<Rightarrow> gin_Context \<Rightarrow> app \<Rightarrow> remote \<Rightarrow> response \<times> app \<times> remote" where
  "updateStudent cd wb pe nt c a r =
     (let sid = Param c ''id'' in
      case ShouldBindJSON wb (requestBody c) of
        Inl e \<Rightarrow>
          (\<lparr>status = 400, body = ErrorMessage ''Invalid request body'' (BindFailure e)\<rparr>, a, r)
      | Inr student \<Rightarrow>
          (case contract a of
             None \<Rightarrow> (recovered, a, r)
           | Some ct \<Rightarrow>
               (case SubmitTransaction cd pe nt ct r ''UpdateStudent''
                       [sid, apiName student, apiDepartment student,
                        apiYear student, apiCGPA student] of
                  (Inl err, r') \<Rightarrow>
                    (\<lparr>status = 500,
                      body = ErrorMessage ''Failed to update student'' (GatewayFailure err)\<rparr>,
                     a, r')
                | (Inr _, r') \<Rightarrow>
                    (\<lparr>status = 200, body = StudentDocument (student\<lparr>apiID := sid\<rparr>)\<rparr>, a, r'))))"

definition deleteStudent ::
  "codec \<Rightarrow> peer \<Rightarrow> net \<Rightarrow> gin_Context \<Rightarrow> app \<Rightarrow> remote \<Rightarrow> response \<times> app \<times> remote" where
  "deleteStudent cd pe nt c a r =
     (let sid = Param c ''id'' in
      case contract a of
        None \<Rightarrow> (recovered, a, r)
      | Some ct \<Rightarrow>
          (case SubmitTransaction cd pe nt ct r ''DeleteStudent'' [sid] of
             (Inl err, r') \<Rightarrow>
               (\<lparr>status = 500,
                 body = ErrorMessage ''Failed to delete student'' (GatewayFailure err)\<rparr>, a, r')
           | (Inr _, r') \<Rightarrow>
               (\<lparr>status = 200,
                 body = Message (''Student '' @ sid @ '' deleted successfully'')\<rparr>, a, r')))"

text \<open>
  The routes of \<open>setupRouter\<close>. A request is its method, the segments of its path and
  its body; a segment bound to \<open>:id\<close> is not empty.
\<close>

datatype http_method = GET | POST | PUT | DELETE

record request =
  reqMethod :: http_method
  reqPath :: "string list"
  reqBody :: bytes

datatype handler =
    H_getAllStudents
  | H_getStudentByID
  | H_createStudent
  | H_updateStudent
  | H_deleteStudent
  | H_initLedger

definition setupRouter :: "http_method \<Rightarrow> string list \<Rightarrow> (handler \<times> string) option" where
  "setupRouter m p =
     (case p of
        [p1, p2] \<Rightarrow>
          if m = GET \<and> p1 = ''api'' \<and> p2 = ''students'' then Some (H_getAllStudents, [])
          else if m = POST \<and> p1 = ''api'' \<and> p2 = ''students'' then Some (H_createStudent, [])
          else if m = POST \<and> p1 = ''api'' \<and> p2 = ''init'' then Some (H_initLedger, [])
          else None
      | [p1, p2, sid] \<Rightarrow>
          if p1 = ''api'' \<and> p2 = ''students'' \<and> sid \<noteq> [] then
            (if m = GET then Some (H_getStudentByID, sid)
             else if m = PUT then Some (H_updateStudent, sid)
             else if m = DELETE then Some (H_deleteStudent, sid)
             else None)
          else None
      | _ \<Rightarrow> None)"

definition runHandler ::
  "codec \<Rightarrow> web \<Rightarrow> peer \<Rightarrow> net \<Rightarrow> handler \<Rightarrow> gin_Context \<Rightarrow> app \<Rightarrow> remote
   \<Rightarrow> response \<times> app \<times> remote" where
  "runHandler cd wb pe nt h c a r =
     (case h of
        H_getAllStudents \<Rightarrow> getAllStudents cd wb pe nt c a r
      | H_getStudentByID \<Rightarrow> getStudentByID cd wb pe nt c a r
      | H_createStudent \<Rightarrow> createStudent cd wb pe nt c a r
      | H_updateStudent \<Rightarrow> updateStudent cd wb pe nt c a r
      | H_deleteStudent \<Rightarrow> deleteStudent cd pe nt c a r
      | H_initLedger \<Rightarrow> initLedger cd pe nt c a r)"

definition serveRequest ::
  "codec \<Rightarrow> web \<Rightarrow> peer \<Rightarrow> net \<Rightarrow> request \<Rightarrow> app \<Rightarrow> remote \<Rightarrow> response \<times> app \<times> remote" where
  "serveRequest cd wb pe nt req a r =
     (case setupRouter (reqMethod req) (reqPath req) of
        None \<Rightarrow> (\<lparr>status = 404, body = NoRoute\<rparr>, a, r)
      | Some (h, sid) \<Rightarrow>
          runHandler cd wb pe nt h
            \<lparr>Param = (\<lambda>k. if k = ''id'' then sid else []), requestBody = reqBody req\<rparr> a r)"

text \<open>
  The server answers requests one after the other; each comes with the behaviour of the
  peer and of the network while it is served.
\<close>

fun serve ::
  "codec \<Rightarrow> web \<Rightarrow> (request \<times> peer \<times> net) list \<Rightarrow> app \<Rightarrow> remote
   \<Rightarrow> response list \<times> app \<times> remote" where
  "serve cd wb [] a r = ([], a, r)"
| "serve cd wb ((req, pe, nt) # rest) a r =
     (case serveRequest cd wb pe nt req a r of
        (resp, a', r') \<Rightarrow>
          (case serve cd wb rest a' r' of
             (resps, a'', r'') \<Rightarrow> (resp # resps, a'', r'')))"

definition main ::
  "os \<Rightarrow> lib \<Rightarrow> codec \<Rightarrow> web \<Rightarrow> (request \<times> peer \<times> net) list \<Rightarrow> remote
   \<Rightarrow> startup_panic + response list \<times> app \<times> remote" where
  "main sys lb cd wb reqs r =
     (case initFabricClient sys lb startApp of
        Inl p \<Rightarrow> Inl p
      | Inr a \<Rightarrow> Inr (serve cd wb reqs a r))"

section \<open>The command-line client\<close>

text \<open>
  \<open>exampleErrorHandling\<close> submits an operation that must fail and sorts the error by its
  type: the chain of \<open>errors.As\<close> tests, with \<open>errors.Is(err, context.DeadlineExceeded)\<close>
  inside the commit-status case. What it prints is a \<open>report\<close>; the details of the
  status it prints afterwards do not take part in the sorting.
\<close>

datatype report =
    EndorseReport string cause
  | SubmitReport string cause
  | TimeoutReport string
  | CommitStatusReport string cause
  | CommitReport string int
  | PanicReport string

fun errorReport :: "gateway_error \<Rightarrow> report" where
  "errorReport (EndorseError tx c) = EndorseReport tx c"
| "errorReport (SubmitError tx c) = SubmitReport tx c"
| "errorReport (CommitStatusError tx c) =
     (if c = DeadlineExceeded then TimeoutReport tx else CommitStatusReport tx c)"
| "errorReport (CommitError tx code) = CommitReport tx code"
| "errorReport (EvaluateError fn c) = PanicReport ''unexpected error type''"
| "errorReport (OtherError m) = PanicReport ''unexpected error type''"

definition exampleErrorHandling ::
  "codec \<Rightarrow> peer \<Rightarrow> net \<Rightarrow> Contract \<Rightarrow> remote \<Rightarrow> report \<times> remote" where
  "exampleErrorHandling cd pe nt ct r =
     (case SubmitTransaction cd pe nt ct r ''UpdateAsset''
             [''asset70'', ''blue'', ''5'', ''Tomoko'', ''300''] of
        (Inr _, r') \<Rightarrow> (PanicReport ''******** FAILED to return an error'', r')
      | (Inl err, r') \<Rightarrow> (errorReport err, r'))"

section \<open>Concrete instances of the parameters\<close>

text \<open>
  A codec: the compact object that \<open>encoding/json\<close> writes for a \<open>Student\<close> whose
  strings need no escape other than of the quote and the backslash, with a decoder for
  exactly this layout.
\<close>

definition dq :: char where
  "dq = CHR 0x22"

definition bsl :: char where
  "bsl = CHR 0x5C"

fun escape :: "string \<Rightarrow> string" where
  "escape [] = []"
| "escape (c # cs) = (if c = dq \<or> c = bsl then bsl # c # escape cs else c # escape cs)"

definition quoted :: "string \<Rightarrow> string" where
  "quoted s = dq # escape s @ [dq]"

definition jsonMember :: "string \<Rightarrow> string \<Rightarrow> string" where
  "jsonMember k v = quoted k @ '':'' @ quoted v"

definition compactMarshal :: "Student \<Rightarrow> bytes" where
  "compactMarshal s =
     ''{'' @ jsonMember ''id'' (ID s) @ '','' @ jsonMember ''name'' (Name s) @ '','' @
     jsonMember ''branch'' (Branch s) @ '','' @ jsonMember ''cgpa'' (CGPA s) @ ''}''"

fun stripPrefix :: "string \<Rightarrow> string \<Rightarrow> string option" where
  "stripPrefix [] inp = Some inp"
| "stripPrefix (p # ps) [] = None"
| "stripPrefix (p # ps) (c # cs) = (if p = c then stripPrefix ps cs else None)"

fun readString :: "string \<Rightarrow> (string \<times> string) option" where
  "readString [] = None"
| "readString (c # cs) =
     (if c = dq then Some ([], cs)
      else if c = bsl then
        (case cs of
           [] \<Rightarrow> None
         | d # ds \<Rightarrow> map_option (\<lambda>(s, r). (d # s, r)) (readString ds))
      else map_option (\<lambda>(s, r). (c # s, r)) (readString cs))"

definition readMember :: "string \<Rightarrow> string \<Rightarrow> (string \<times> string) option" where
  "readMember k inp =
     (case stripPrefix (quoted k @ '':'' @ [dq]) inp of
        None \<Rightarrow> None
      | Some r \<Rightarrow> readString r)"

fun readMembers :: "string list \<Rightarrow> string \<Rightarrow> (string list \<times> string) option" where
  "readMembers [] inp = Some ([], inp)"
| "readMembers [k] inp =
     (case readMember k inp of None \<Rightarrow> None | Some (v, r) \<Rightarrow> Some ([v], r))"
| "readMembers (k # k' # ks) inp =
     (case readMember k inp of
        None \<Rightarrow> None
      | Some (v, r) \<Rightarrow>
          (case stripPrefix '','' r of
             None \<Rightarrow> None
           | Some r' \<Rightarrow>
               (case readMembers (k' # ks) r' of
                  None \<Rightarrow> None
                | Some (vs, r'') \<Rightarrow> Some (v # vs, r''))))"

definition compactUnmarshal :: "bytes \<Rightarrow> string + Student" where
  "compactUnmarshal b =
     (case stripPrefix ''{'' b of
        None \<Rightarrow> Inl ''invalid character''
      | Some r \<Rightarrow>
          (case readMembers [''id'', ''name'', ''branch'', ''cgpa''] r of
             Some ([i, n, br, g], rest) \<Rightarrow>
               if rest = ''}'' then Inr \<lparr>ID = i, Name = n, Branch = br, CGPA = g\<rparr>
               else Inl ''invalid character''
           | _ \<Rightarrow> Inl ''invalid character''))"

fun joinComma :: "string list \<Rightarrow> string" where
  "joinComma [] = []"
| "joinComma [x] = x"
| "joinComma (x # y # ys) = x @ '','' @ joinComma (y # ys)"

definition compactMarshalList :: "Student list \<Rightarrow> bytes" where
  "compactMarshalList students =
     (if students = [] then ''null''
      else ''['' @ joinComma (map compactMarshal students) @ '']'')"

definition compactCodec :: codec where
  "compactCodec =
     \<lparr>json_Marshal = (\<lambda>s. Inr (compactMarshal s)),
      json_Unmarshal = compactUnmarshal,
      json_MarshalList = (\<lambda>ss. Inr (compactMarshalList ss))\<rparr>"

text \<open>A peer whose state database answers every call, and a network without faults.\<close>

definition healthyPeer :: peer where
  "healthyPeer =
     \<lparr>getErr = (\<lambda>_. None), putErr = (\<lambda>_ _. None), rangeErr = None, nextErr = (\<lambda>_. None)\<rparr>"

definition healthyNet :: "string \<Rightarrow> net" where
  "healthyNet tx =
     \<lparr>transactionID = tx, evaluateFault = None, endorseFault = None, submitFault = None,
      statusFault = None, validationCode = 0\<rparr>"

text \<open>
  A file system in the layout of the test network: one certificate in \<open>signcerts\<close>, one
  key in \<open>keystore\<close>, the TLS certificate of the peer; no environment variable is set.
\<close>

definition sampleOs :: os where
  "sampleOs =
     \<lparr>os_Open = (\<lambda>p. if p = certPath then Inr (Some [''cert.pem''])
                     else if p = keyPath then Inr (Some [''priv_sk''])
                     else Inl ''no such file or directory''),
      os_ReadFile = (\<lambda>p. if p = tlsCertPath then Inr ''tls-ca-pem''
                         else if p = certPath @ ''/cert.pem'' then Inr ''user-cert-pem''
                         else if p = keyPath @ ''/priv_sk'' then Inr ''user-key-pem''
                         else Inl ''no such file or directory''),
      path_Join = (\<lambda>d f. d @ ''/'' @ f),
      os_Getenv = (\<lambda>_. [])\<rparr>"

definition sampleLib :: lib where
  "sampleLib =
     \<lparr>CertificateFromPEM = (\<lambda>b. if b = [] then Inl ''no PEM data'' else Inr (Certificate b)),
      NewX509Identity = (\<lambda>m c. Inr \<lparr>idMspID = m, idCertificate = c\<rparr>),
      PrivateKeyFromPEM = (\<lambda>b. if b = [] then Inl ''no PEM data'' else Inr (PrivateKey b)),
      NewPrivateKeySign = (\<lambda>k. Inr (Signer k)),
      dialError = (\<lambda>_. None)\<rparr>"

text \<open>A web layer whose binder yields a given student for every body that is not empty.\<close>

definition sampleWeb :: "ApiStudent \<Rightarrow> web" where
  "sampleWeb s =
     \<lparr>ShouldBindJSON = (\<lambda>b. if b = [] then Inl ''EOF'' else Inr s),
      unmarshalMap = (\<lambda>b. Inr (JString b)),
      unmarshalMaps = (\<lambda>b. Inr (JString b))\<rparr>"

text \<open>The session and the package-level variables that start-up yields on this file system.\<close>

definition sampleGateway :: Gateway where
  "sampleGateway =
     \<lparr>signingID = \<lparr>idMspID = mspID, idCertificate = Certificate ''user-cert-pem''\<rparr>,
      signFn = Some (Signer (PrivateKey ''user-key-pem'')),
      hashFn = Some SHA256,
      clientConn = Some \<lparr>target = peerEndpoint,
                         credentials = \<lparr>rootCAs = [Certificate ''tls-ca-pem''],
                                        serverName = gatewayPeer\<rparr>,
                         handshakeDone = False\<rparr>,
      evaluateTimeout = Some 5000000000,
      endorseTimeout = Some 15000000000,
      submitTimeout = Some 5000000000,
      commitStatusTimeout = Some 60000000000\<rparr>"

definition sampleContract :: Contract where
  "sampleContract =
     \<lparr>contractNetwork = \<lparr>networkGateway = sampleGateway, channelName = ''mychannel''\<rparr>,
      chaincodeName = ''studentrecords''\<rparr>"

definition sampleApp :: app where
  "sampleApp =
     \<lparr>contract = Some sampleContract,
      network = Some \<lparr>networkGateway = sampleGateway, channelName = ''mychannel''\<rparr>,
      gw = Some sampleGateway,
      filesRead = [tlsCertPath, certPath @ ''/cert.pem'', keyPath @ ''/priv_sk'']\<rparr>"

definition sampleStudent :: ApiStudent where
  "sampleStudent =
     \<lparr>apiID = ''STU001'', apiName = ''Alice'', apiDepartment = ''Computer Science'',
      apiYear = ''4'', apiCGPA = ''9.2''\<rparr>"

definition emptyRemote :: remote where
  "emptyRemote = \<lparr>ledger = [], calls = []\<rparr>"

section \<open>JSON as \<open>encoding/json\<close> writes and reads a student\<close>

text \<open>
  \<open>encoding/json\<close> is library code, outside the repository and the specification. This
  instance of the codec follows the behaviour of the library on the strings of a
  \<open>Student\<close>. \<open>json.Marshal\<close> writes a string coerced to valid UTF-8: every byte that
  starts no well-formed sequence becomes the replacement character U+FFFD. It escapes
  the quote, the backslash, the control characters, the characters \<open><\<close>, \<open>>\<close> and \<open>&\<close>,
  and the separators U+2028 and U+2029. \<open>json.Unmarshal\<close> undoes the escapes and
  coerces what it reads to valid UTF-8 in the same way.
\<close>

definition hexDigit :: "nat \<Rightarrow> char" where
  "hexDigit n = (if n < 10 then char_of (48 + n) else char_of (87 + n))"

definition hexValue :: "char \<Rightarrow> nat option" where
  "hexValue c =
     (let b = of_char c :: nat in
      if 48 \<le> b \<and> b \<le> 57 then Some (b - 48)
      else if 97 \<le> b \<and> b \<le> 102 then Some (b - 87)
      else if 65 \<le> b \<and> b \<le> 70 then Some (b - 55)
      else None)"

text \<open>The value of four hexadecimal digits.\<close>

definition getu4 :: "char \<Rightarrow> char \<Rightarrow> char \<Rightarrow> char \<Rightarrow> nat option" where
  "getu4 h1 h2 h3 h4 =
     (case hexValue h1 of None \<Rightarrow> None | Some a \<Rightarrow>
     (case hexValue h2 of None \<Rightarrow> None | Some b \<Rightarrow>
     (case hexValue h3 of None \<Rightarrow> None | Some c \<Rightarrow>
     (case hexValue h4 of None \<Rightarrow> None | Some d \<Rightarrow>
        Some (((a * 16 + b) * 16 + c) * 16 + d)))))"

text \<open>The replacement character U+FFFD, and the UTF-8 encoding of a code point.\<close>

definition replacement :: string where
  "replacement = [CHR 0xEF, CHR 0xBF, CHR 0xBD]"

definition encodeRune :: "nat \<Rightarrow> string" where
  "encodeRune r =
     (if r < 0x80 then [char_of r]
      else if r < 0x800 then [char_of (0xC0 + r div 64), char_of (0x80 + r mod 64)]
      else if (0xD800 \<le> r \<and> r < 0xE000) \<or> 0x10FFFF < r then replacement
      else if r < 0x10000 then
        [char_of (0xE0 + r div 4096), char_of (0x80 + r div 64 mod 64), char_of (0x80 + r mod 64)]
      else
        [char_of (0xF0 + r div 262144), char_of (0x80 + r div 4096 mod 64),
         char_of (0x80 + r div 64 mod 64), char_of (0x80 + r mod 64)])"

text \<open>
  \<open>runeSize s\<close> is the number of bytes of the well-formed UTF-8 sequence at the head of
  \<open>s\<close>, and 0 when there is none: one byte below \<open>0x80\<close>, or a lead byte \<open>0xC2\<close> to
  \<open>0xF4\<close> with its continuation bytes, without overlong forms, surrogates and code
  points above U+10FFFF.
\<close>

definition continuation :: "char \<Rightarrow> bool" where
  "continuation c = (0x80 \<le> (of_char c :: nat) \<and> (of_char c :: nat) \<le> 0xBF)"

definition secondByte :: "nat \<Rightarrow> char \<Rightarrow> bool" where
  "secondByte b c =
     ((if b = 0xE0 then 0xA0 else if b = 0xF0 then 0x90 else 0x80) \<le> (of_char c :: nat)
      \<and> (of_char c :: nat) \<le> (if b = 0xED then 0x9F else if b = 0xF4 then 0x8F else 0xBF))"

fun runeSize :: "string \<Rightarrow> nat" where
  "runeSize [] = 0"
| "runeSize (c # cs) =
     (let b = of_char c :: nat in
      if b < 0x80 then 1
      else if 0xC2 \<le> b \<and> b \<le> 0xDF then
        (case cs of c1 # _ \<Rightarrow> if continuation c1 then 2 else 0 | _ \<Rightarrow> 0)
      else if 0xE0 \<le> b \<and> b \<le> 0xEF then
        (case cs of
           c1 # c2 # _ \<Rightarrow> if secondByte b c1 \<and> continuation c2 then 3 else 0
         | _ \<Rightarrow> 0)
      else if 0xF0 \<le> b \<and> b \<le> 0xF4 then
        (case cs of
           c1 # c2 # c3 # _ \<Rightarrow>
             if secondByte b c1 \<and> continuation c2 \<and> continuation c3 then 4 else 0
         | _ \<Rightarrow> 0)
      else 0)"

text \<open>A string is valid UTF-8 when it is a sequence of well-formed sequences.\<close>

function validUTF8 :: "string \<Rightarrow> bool" where
  "validUTF8 [] = True"
| "validUTF8 (c # cs) =
     (runeSize (c # cs) \<noteq> 0 \<and> validUTF8 (drop (runeSize (c # cs) - 1) cs))"
  by pat_completeness auto
termination
  by (relation "measure length") auto

text \<open>Coercion to valid UTF-8: each byte that starts no well-formed sequence is replaced.\<close>

function coerceUTF8 :: "string \<Rightarrow> string" where
  "coerceUTF8 [] = []"
| "coerceUTF8 (c # cs) =
     (if runeSize (c # cs) = 0 then replacement @ coerceUTF8 cs
      else take (runeSize (c # cs)) (c # cs) @ coerceUTF8 (drop (runeSize (c # cs) - 1) cs))"
  by pat_completeness auto
termination
  by (relation "measure length") auto

text \<open>
  The encoder of a string. A byte below \<open>0x80\<close> is written as it is when it needs no
  escape. Else it is written as a backslash escape: the short form for the quote, the
  backslash, the line feed, the carriage return and the tab, the form with \<open>u\<close> and four
  hexadecimal digits for the others. (Newer versions of the library write the backspace
  and the form feed in the short form; the decoder reads both forms.) A byte that
  starts no well-formed sequence is written as the escape of U+FFFD, the separators
  U+2028 and U+2029 as their escapes, every other sequence as it is.
\<close>

definition htmlSafe :: "char \<Rightarrow> bool" where
  "htmlSafe c = (0x20 \<le> (of_char c :: nat) \<and> c \<noteq> dq \<and> c \<noteq> bsl
                 \<and> c \<noteq> CHR 0x3C \<and> c \<noteq> CHR 0x3E \<and> c \<noteq> CHR 0x26)"

definition escapeByte :: "char \<Rightarrow> string" where
  "escapeByte c =
     (if c = dq \<or> c = bsl then [bsl, c]
      else if c = CHR 0x0A then [bsl, CHR ''n'']
      else if c = CHR 0x0D then [bsl, CHR ''r'']
      else if c = CHR 0x09 then [bsl, CHR ''t'']
      else [bsl, CHR ''u'', CHR ''0'', CHR ''0'',
            hexDigit (of_char c div 16), hexDigit (of_char c mod 16)])"

function escapeString :: "string \<Rightarrow> string" where
  "escapeString [] = []"
| "escapeString (c # cs) =
     (if (of_char c :: nat) < 0x80 then
        (if htmlSafe c then [c] else escapeByte c) @ escapeString cs
      else if runeSize (c # cs) = 0 then bsl # ''ufffd'' @ escapeString cs
      else if take 3 (c # cs) = [CHR 0xE2, CHR 0x80, CHR 0xA8] then
        bsl # ''u2028'' @ escapeString (drop 2 cs)
      else if take 3 (c # cs) = [CHR 0xE2, CHR 0x80, CHR 0xA9] then
        bsl # ''u2029'' @ escapeString (drop 2 cs)
      else take (runeSize (c # cs)) (c # cs) @ escapeString (drop (runeSize (c # cs) - 1) cs))"
  by pat_completeness auto
termination
  by (relation "measure length") auto

text \<open>
  The decoder of a string, from behind the opening quote to the closing one; it yields
  the string and the rest of the input. A control character and an escape other than
  the nine of JSON are errors. The escape with \<open>u\<close> and four hexadecimal digits is the
  code point, two of them a surrogate pair, a lone surrogate the replacement character.
  A well-formed sequence is kept, a byte that starts none is replaced.
\<close>

definition unescape :: "char \<Rightarrow> char option" where
  "unescape e =
     (if e = dq \<or> e = bsl \<or> e = CHR ''/'' then Some e
      else if e = CHR ''b'' then Some (CHR 0x08)
      else if e = CHR ''f'' then Some (CHR 0x0C)
      else if e = CHR ''n'' then Some (CHR 0x0A)
      else if e = CHR ''r'' then Some (CHR 0x0D)
      else if e = CHR ''t'' then Some (CHR 0x09)
      else None)"

definition prepend :: "string \<Rightarrow> (string \<times> string) option \<Rightarrow> (string \<times> string) option" where
  "prepend p res = (case res of None \<Rightarrow> None | Some (s, r) \<Rightarrow> Some (p @ s, r))"

definition lowSurrogate :: "string \<Rightarrow> nat option" where
  "lowSurrogate inp =
     (case inp of
        b # u # g1 # g2 # g3 # g4 # _ \<Rightarrow>
          if b = bsl \<and> u = CHR ''u'' then
            (case getu4 g1 g2 g3 g4 of
               None \<Rightarrow> None
             | Some r2 \<Rightarrow> if 0xDC00 \<le> r2 \<and> r2 < 0xE000 then Some r2 else None)
          else None
      | _ \<Rightarrow> None)"

function readGoString :: "string \<Rightarrow> (string \<times> string) option" where
  "readGoString [] = None"
| "readGoString (c # cs) =
     (if c = dq then Some ([], cs)
      else if c = bsl then
        (case cs of
           [] \<Rightarrow> None
         | e # es \<Rightarrow>
             if e = CHR ''u'' then
               (case es of
                  h1 # h2 # h3 # h4 # rest \<Rightarrow>
                    (case getu4 h1 h2 h3 h4 of
                       None \<Rightarrow> None
                     | Some r \<Rightarrow>
                         if 0xD800 \<le> r \<and> r < 0xE000 then
                           (case (if r < 0xDC00 then lowSurrogate rest else None) of
                              Some r2 \<Rightarrow>
                                prepend (encodeRune ((r - 0xD800) * 1024 + (r2 - 0xDC00) + 0x10000))
                                  (readGoString (drop 6 rest))
                            | None \<Rightarrow> prepend replacement (readGoString rest))
                         else prepend (encodeRune r) (readGoString rest))
                | _ \<Rightarrow> None)
             else
               (case unescape e of
                  None \<Rightarrow> None
                | Some b \<Rightarrow> prepend [b] (readGoString es)))
      else if (of_char c :: nat) < 0x20 then None
      else if (of_char c :: nat) < 0x80 then prepend [c] (readGoString cs)
      else if runeSize (c # cs) = 0 then prepend replacement (readGoString cs)
      else prepend (take (runeSize (c # cs)) (c # cs))
             (readGoString (drop (runeSize (c # cs) - 1) cs)))"
  by pat_completeness auto
termination
  by (relation "measure length") auto

text \<open>
  A student is written as the object of its four tagged fields in the order of the
  struct, without white space. The decoder reads the objects of this layout, which is
  all the chaincode ever stores; other input, of which \<open>json.Unmarshal\<close> accepts more,
  it reports as an error.
\<close>

definition goKey :: "string \<Rightarrow> string" where
  "goKey k = dq # k @ [dq, CHR '':'']"

definition goMember :: "string \<Rightarrow> string \<Rightarrow> string" where
  "goMember k v = goKey k @ dq # escapeString v @ [dq]"

definition goMarshal :: "Student \<Rightarrow> bytes" where
  "goMarshal s =
     ''{'' @ goMember ''id'' (ID s) @ '','' @ goMember ''name'' (Name s) @ '','' @
     goMember ''branch'' (Branch s) @ '','' @ goMember ''cgpa'' (CGPA s) @ ''}''"

definition readGoMember :: "string \<Rightarrow> string \<Rightarrow> (string \<times> string) option" where
  "readGoMember k inp =
     (case stripPrefix (goKey k @ [dq]) inp of
        None \<Rightarrow> None
      | Some r \<Rightarrow> readGoString r)"

fun readGoMembers :: "string list \<Rightarrow> string \<Rightarrow> (string list \<times> string) option" where
  "readGoMembers [] inp = Some ([], inp)"
| "readGoMembers [k] inp =
     (case readGoMember k inp of None \<Rightarrow> None | Some (v, r) \<Rightarrow> Some ([v], r))"
| "readGoMembers (k # k' # ks) inp =
     (case readGoMember k inp of
        None \<Rightarrow> None
      | Some (v, r) \<Rightarrow>
          (case stripPrefix '','' r of
             None \<Rightarrow> None
           | Some r' \<Rightarrow>
               (case readGoMembers (k' # ks) r' of
                  None \<Rightarrow> None
                | Some (vs, r'') \<Rightarrow> Some (v # vs, r''))))"

definition goUnmarshal :: "bytes \<Rightarrow> string + Student" where
  "goUnmarshal b =
     (case stripPrefix ''{'' b of
        None \<Rightarrow> Inl ''invalid character''
      | Some r \<Rightarrow>
          (case readGoMembers [''id'', ''name'', ''branch'', ''cgpa''] r of
             Some ([i, n, br, g], rest) \<Rightarrow>
               if rest = ''}'' then Inr \<lparr>ID = i, Name = n, Branch = br, CGPA = g\<rparr>
               else Inl ''invalid character''
           | _ \<Rightarrow> Inl ''invalid character''))"

definition goMarshalList :: "Student list \<Rightarrow> bytes" where
  "goMarshalList students =
     (if students = [] then ''null''
      else ''['' @ joinComma (map goMarshal students) @ '']'')"

definition goCodec :: codec where
  "goCodec =
     \<lparr>json_Marshal = (\<lambda>s. Inr (goMarshal s)),
      json_Unmarshal = goUnmarshal,
      json_MarshalList = (\<lambda>ss. Inr (goMarshalList ss))\<rparr>"

section \<open>Properties\<close>

subsection \<open>The codec instance\<close>

lemma readString_escape: "readString (escape s @ dq # rest) = Some (s, rest)"
  by (induction s) (auto simp: dq_def bsl_def)

lemma stripPrefix_append: "stripPrefix p (p @ rest) = Some rest"
  by (induction p) auto

lemma readMember_jsonMember: "readMember k (jsonMember k v @ rest) = Some (v, rest)"
  using stripPrefix_append [of "quoted k @ '':'' @ [dq]" "escape v @ dq # rest"]
  by (simp add: readMember_def jsonMember_def quoted_def readString_escape)

lemma compactCodec_roundtrip: "compactUnmarshal (compactMarshal s) = Inr s"
proof -
  have "readMembers [''id'', ''name'', ''branch'', ''cgpa'']
          (jsonMember ''id'' (ID s) @ '','' @ jsonMember ''name'' (Name s) @ '','' @
           jsonMember ''branch'' (Branch s) @ '','' @ jsonMember ''cgpa'' (CGPA s) @ ''}'')
        = Some ([ID s, Name s, Branch s, CGPA s], ''}'')"
    using readMember_jsonMember [of "''id''" "ID s"] readMember_jsonMember [of "''name''" "Name s"]
      readMember_jsonMember [of "''branch''" "Branch s"]
      readMember_jsonMember [of "''cgpa''" "CGPA s"]
    by simp
  then show ?thesis
    by (simp add: compactUnmarshal_def compactMarshal_def)
qed


subsection \<open>The codec of \<open>encoding/json\<close>\<close>

lemma hexValue_hexDigit: "n < 16 \<Longrightarrow> hexValue (hexDigit n) = Some n"
  by (auto simp: hexValue_def hexDigit_def Let_def)

lemma getu4_byte:
  assumes "(of_char c :: nat) < 0x80"
  shows "getu4 (CHR ''0'') (CHR ''0'') (hexDigit (of_char c div 16)) (hexDigit (of_char c mod 16))
           = Some (of_char c)"
proof -
  have "(of_char c :: nat) div 16 < 16" using assms by simp
  moreover have "(of_char c :: nat) mod 16 < 16" by simp
  moreover have "hexValue (CHR ''0'') = Some 0" by (simp add: hexValue_def)
  ultimately show ?thesis
    by (simp add: getu4_def hexValue_hexDigit)
qed

lemma encodeRune_byte: "(of_char c :: nat) < 0x80 \<Longrightarrow> encodeRune (of_char c) = [c]"
  by (simp add: encodeRune_def)

lemma prepend_Some [simp]: "prepend p (Some (s, r)) = Some (p @ s, r)"
  by (simp add: prepend_def)

lemma read_escapeByte:
  assumes "(of_char c :: nat) < 0x80" "\<not> htmlSafe c"
  shows "readGoString (escapeByte c @ inp) = prepend [c] (readGoString inp)"
proof -
  consider "c = dq" | "c = bsl" | "c = CHR 0x0A" | "c = CHR 0x0D" | "c = CHR 0x09"
    | "c \<noteq> dq" "c \<noteq> bsl" "c \<noteq> CHR 0x0A" "c \<noteq> CHR 0x0D" "c \<noteq> CHR 0x09"
    by blast
  then show ?thesis
  proof cases
    case 6
    have u: "(0xD800::nat) \<le> of_char c \<longleftrightarrow> False" using assms by simp
    show ?thesis
      using 6 assms getu4_byte [OF assms(1)] encodeRune_byte [OF assms(1)]
      by (simp add: escapeByte_def dq_def bsl_def)
  qed (simp_all add: escapeByte_def dq_def bsl_def unescape_def)
qed

lemma char_of_eq: "of_char c = (n::nat) \<Longrightarrow> char_of n = c"
  by auto

lemma encodeRune_line_separator: "encodeRune 8232 = [CHR 0xE2, CHR 0x80, CHR 0xA8]"
  by (simp add: encodeRune_def) (intro conjI char_of_eq; simp)

lemma encodeRune_paragraph_separator: "encodeRune 8233 = [CHR 0xE2, CHR 0x80, CHR 0xA9]"
  by (simp add: encodeRune_def) (intro conjI char_of_eq; simp)

lemma encodeRune_replacement: "encodeRune 65533 = [CHR 0xEF, CHR 0xBF, CHR 0xBD]"
  by (simp add: encodeRune_def) (intro conjI char_of_eq; simp)

lemma runeSize_le: "runeSize s \<le> length s"
  by (cases s) (auto simp: Let_def split: list.splits)

lemma runeSize_prefix:
  assumes "runeSize (c # cs) = Suc n"
  shows "runeSize (c # take n cs @ ys) = Suc n"
  using assms
  by (auto simp: Let_def split: list.splits if_splits)

lemma read_ascii:
  assumes "(of_char c :: nat) < 0x80"
  shows "readGoString ((if htmlSafe c then [c] else escapeByte c) @ inp)
           = prepend [c] (readGoString inp)"
proof (cases "htmlSafe c")
  case True
  then show ?thesis using assms by (simp add: htmlSafe_def del: runeSize.simps)
next
  case False
  then show ?thesis using read_escapeByte [OF assms False] by simp
qed

lemma read_line_separator:
  "readGoString (bsl # ''u2028'' @ inp) = prepend [CHR 0xE2, CHR 0x80, CHR 0xA8] (readGoString inp)"
proof -
  have "getu4 (CHR ''2'') (CHR ''0'') (CHR ''2'') (CHR ''8'') = Some 8232"
    by (simp add: getu4_def hexValue_def)
  then show ?thesis
    by (simp add: bsl_def dq_def encodeRune_line_separator del: runeSize.simps)
qed

lemma read_paragraph_separator:
  "readGoString (bsl # ''u2029'' @ inp) = prepend [CHR 0xE2, CHR 0x80, CHR 0xA9] (readGoString inp)"
proof -
  have "getu4 (CHR ''2'') (CHR ''0'') (CHR ''2'') (CHR ''9'') = Some 8233"
    by (simp add: getu4_def hexValue_def)
  then show ?thesis
    by (simp add: bsl_def dq_def encodeRune_paragraph_separator del: runeSize.simps)
qed


lemma read_replacement:
  "readGoString (bsl # ''ufffd'' @ inp) = prepend replacement (readGoString inp)"
proof -
  have "getu4 (CHR ''f'') (CHR ''f'') (CHR ''f'') (CHR ''d'') = Some 65533"
    by (simp add: getu4_def hexValue_def)
  then show ?thesis
    by (simp add: bsl_def dq_def encodeRune_replacement replacement_def del: runeSize.simps)
qed

lemma validUTF8_Cons:
  assumes "validUTF8 (c # cs)"
  obtains n where "runeSize (c # cs) = Suc n" "validUTF8 (drop n cs)" "n \<le> length cs"
proof -
  from assms have nz: "runeSize (c # cs) \<noteq> 0"
    and v: "validUTF8 (drop (runeSize (c # cs) - 1) cs)"
    by (simp_all del: runeSize.simps)
  from nz obtain n where n: "runeSize (c # cs) = Suc n"
    using not0_implies_Suc by blast
  from v n have "validUTF8 (drop n cs)" by (simp only: diff_Suc_1)
  moreover have "n \<le> length cs" using runeSize_le [of "c # cs"] n by simp
  ultimately show ?thesis using n that by blast
qed

lemma read_rune:
  assumes hi: "\<not> (of_char c :: nat) < 0x80" and n: "runeSize (c # cs) = Suc n"
    and len: "n \<le> length cs"
  shows "readGoString (c # take n cs @ inp) = prepend (c # take n cs) (readGoString inp)"
proof -
  let ?X = "take n cs @ inp"
  have cdq: "c \<noteq> dq" "c \<noteq> bsl" "\<not> (of_char c :: nat) < 0x20"
    using hi by (auto simp: dq_def bsl_def)
  have pre: "runeSize (c # ?X) = Suc n"
    by (rule runeSize_prefix [OF n])
  have step: "readGoString (c # ?X)
          = prepend (take (Suc n) (c # ?X)) (readGoString (drop n ?X))"
    by (simp only: readGoString.simps cdq hi if_False pre nat.distinct diff_Suc_1)
  have tk: "take (Suc n) (c # ?X) = c # take n cs"
    using len by (simp del: runeSize.simps escapeString.simps readGoString.simps)
  have dr: "drop n ?X = inp"
    using len by (simp del: runeSize.simps escapeString.simps readGoString.simps)
  show ?thesis by (simp only: step tk dr)
qed

lemma take3_Cons:
  assumes "take 3 (c # cs) = [a, b, d]"
  obtains cs' where "c = a" "cs = b # d # cs'"
proof (cases cs)
  case Nil
  with assms show ?thesis by simp
next
  case (Cons x xs)
  show ?thesis
  proof (cases xs)
    case Nil
    with Cons assms show ?thesis by simp
  next
    case (Cons y ys)
    with \<open>cs = x # xs\<close> assms that show ?thesis by simp
  qed
qed

lemma read_escapeString:
  "readGoString (escapeString s @ dq # rest) = Some (coerceUTF8 s, rest)"
proof (induction s rule: escapeString.induct)
  case 1
  show ?case by simp
next
  case (2 c cs)
  show ?case
  proof (cases "(of_char c :: nat) < 0x80")
    case True
    then have one: "runeSize (c # cs) = 1" by simp
    have ih: "readGoString (escapeString cs @ dq # rest) = Some (coerceUTF8 cs, rest)"
      by (rule "2.IH"(1) [OF True])
    have co: "coerceUTF8 (c # cs) = c # coerceUTF8 cs"
      by (subst coerceUTF8.simps) (simp add: one del: coerceUTF8.simps runeSize.simps)
    have "escapeString (c # cs) @ dq # rest
            = (if htmlSafe c then [c] else escapeByte c) @ (escapeString cs @ dq # rest)"
      by (simp only: escapeString.simps True if_True append_assoc)
    then show ?thesis
      by (simp only: read_ascii [OF True] ih prepend_Some append_Cons append_Nil co)
  next
    case False
    show ?thesis
    proof (cases "runeSize (c # cs) = 0")
      case bad: True
      have ih: "readGoString (escapeString cs @ dq # rest) = Some (coerceUTF8 cs, rest)"
        by (rule "2.IH"(2) [OF False bad])
      have esc: "escapeString (c # cs) = bsl # ''ufffd'' @ escapeString cs"
        using False bad
        by (subst escapeString.simps) (simp del: escapeString.simps runeSize.simps)
      have co: "coerceUTF8 (c # cs) = replacement @ coerceUTF8 cs"
        using bad by (subst coerceUTF8.simps) (simp del: coerceUTF8.simps runeSize.simps)
      have "readGoString (escapeString (c # cs) @ dq # rest)
              = prepend replacement (Some (coerceUTF8 cs, rest))"
        using read_replacement [of "escapeString cs @ dq # rest"]
        by (simp only: esc ih append_Cons append_assoc)
      then show ?thesis by (simp only: prepend_Some co)
    next
      case nz: False
      then obtain n where n: "runeSize (c # cs) = Suc n"
        using not0_implies_Suc by blast
      have len: "n \<le> length cs" using runeSize_le [of "c # cs"] n by simp
      have co: "coerceUTF8 (c # cs) = c # take n cs @ coerceUTF8 (drop n cs)"
        using n by (subst coerceUTF8.simps) (simp del: coerceUTF8.simps runeSize.simps)
      show ?thesis
      proof (cases "take 3 (c # cs) = [CHR 0xE2, CHR 0x80, CHR 0xA8]")
        case ls: True
        have esc: "escapeString (c # cs) = bsl # ''u2028'' @ escapeString (drop 2 cs)"
          using False nz ls
          by (subst escapeString.simps) (simp del: escapeString.simps runeSize.simps)
        from ls obtain cs' where c: "c = CHR 0xE2" and cs: "cs = CHR 0x80 # CHR 0xA8 # cs'"
          by (rule take3_Cons)
        have "runeSize (c # cs) = 3"
          by (simp add: c cs continuation_def secondByte_def)
        with n have n2: "n = 2" by simp
        have ih: "readGoString (escapeString (drop 2 cs) @ dq # rest)
                    = Some (coerceUTF8 (drop 2 cs), rest)"
          by (rule "2.IH"(3) [OF False nz ls])
        have co': "coerceUTF8 (c # cs) = [CHR 0xE2, CHR 0x80, CHR 0xA8] @ coerceUTF8 (drop 2 cs)"
          using co by (simp add: n2 c cs del: coerceUTF8.simps)
        have "readGoString (escapeString (c # cs) @ dq # rest)
                = prepend [CHR 0xE2, CHR 0x80, CHR 0xA8] (Some (coerceUTF8 (drop 2 cs), rest))"
          using read_line_separator [of "escapeString (drop 2 cs) @ dq # rest"]
          by (simp only: esc ih append_Cons append_assoc)
        then show ?thesis by (simp only: prepend_Some co')
      next
        case nls: False
        show ?thesis
        proof (cases "take 3 (c # cs) = [CHR 0xE2, CHR 0x80, CHR 0xA9]")
          case ps: True
          have esc: "escapeString (c # cs) = bsl # ''u2029'' @ escapeString (drop 2 cs)"
            using False nz ps
            by (subst escapeString.simps) (simp del: escapeString.simps runeSize.simps)
          from ps obtain cs' where c: "c = CHR 0xE2" and cs: "cs = CHR 0x80 # CHR 0xA9 # cs'"
            by (rule take3_Cons)
          have "runeSize (c # cs) = 3"
            by (simp add: c cs continuation_def secondByte_def)
          with n have n2: "n = 2" by simp
          have ih: "readGoString (escapeString (drop 2 cs) @ dq # rest)
                      = Some (coerceUTF8 (drop 2 cs), rest)"
            by (rule "2.IH"(4) [OF False nz nls ps])
          have co': "coerceUTF8 (c # cs) = [CHR 0xE2, CHR 0x80, CHR 0xA9] @ coerceUTF8 (drop 2 cs)"
            using co by (simp add: n2 c cs del: coerceUTF8.simps)
          have "readGoString (escapeString (c # cs) @ dq # rest)
                  = prepend [CHR 0xE2, CHR 0x80, CHR 0xA9] (Some (coerceUTF8 (drop 2 cs), rest))"
            using read_paragraph_separator [of "escapeString (drop 2 cs) @ dq # rest"]
            by (simp only: esc ih append_Cons append_assoc)
          then show ?thesis by (simp only: prepend_Some co')
        next
          case nps: False
          have ih: "readGoString (escapeString (drop n cs) @ dq # rest)
                      = Some (coerceUTF8 (drop n cs), rest)"
            using "2.IH"(5) [OF False nz nls nps] n by simp
          have esc: "escapeString (c # cs) = c # take n cs @ escapeString (drop n cs)"
            by (simp only: escapeString.simps False nz nls nps if_False n diff_Suc_1
                  take_Suc_Cons append_Cons nat.distinct)
          have "readGoString (escapeString (c # cs) @ dq # rest)
                  = readGoString (c # take n cs @ (escapeString (drop n cs) @ dq # rest))"
            by (simp only: esc append_Cons append_assoc)
          also have "\<dots> = prepend (c # take n cs) (Some (coerceUTF8 (drop n cs), rest))"
            by (simp only: read_rune [OF False n len] ih)
          also have "\<dots> = Some (coerceUTF8 (c # cs), rest)"
            by (simp only: prepend_Some append_Cons co)
          finally show ?thesis .
        qed
      qed
    qed
  qed
qed

lemma coerceUTF8_valid: "validUTF8 s \<Longrightarrow> coerceUTF8 s = s"
proof (induction s rule: coerceUTF8.induct)
  case 1
  show ?case by simp
next
  case (2 c cs)
  from "2.prems" obtain n where n: "runeSize (c # cs) = Suc n"
    and v: "validUTF8 (drop n cs)" and len: "n \<le> length cs"
    by (rule validUTF8_Cons)
  have nz: "runeSize (c # cs) \<noteq> 0" using n by simp
  have "coerceUTF8 (drop n cs) = drop n cs"
    using "2.IH"(2) [OF nz] v n by simp
  moreover have "coerceUTF8 (c # cs) = c # take n cs @ coerceUTF8 (drop n cs)"
    using n by (subst coerceUTF8.simps) (simp del: coerceUTF8.simps runeSize.simps)
  ultimately show ?case by simp
qed

lemma coerceUTF8_invalid_byte: "coerceUTF8 [CHR 0xFF] = [CHR 0xEF, CHR 0xBF, CHR 0xBD]"
  by (simp add: replacement_def)

lemma readGoMember_goMember:
  "readGoMember k (goMember k v @ rest) = Some (coerceUTF8 v, rest)"
  using stripPrefix_append [of "goKey k @ [dq]" "escapeString v @ dq # rest"]
  by (simp add: readGoMember_def goMember_def read_escapeString
        del: escapeString.simps readGoString.simps coerceUTF8.simps)

text \<open>What is read back from the encoding of a student is the student coerced to valid UTF-8.\<close>

lemma goUnmarshal_goMarshal:
  "goUnmarshal (goMarshal s) =
     Inr \<lparr>ID = coerceUTF8 (ID s), Name = coerceUTF8 (Name s),
          Branch = coerceUTF8 (Branch s), CGPA = coerceUTF8 (CGPA s)\<rparr>"
proof -
  have "readGoMembers [''id'', ''name'', ''branch'', ''cgpa'']
          (goMember ''id'' (ID s) @ '','' @ goMember ''name'' (Name s) @ '','' @
           goMember ''branch'' (Branch s) @ '','' @ goMember ''cgpa'' (CGPA s) @ ''}'')
        = Some ([coerceUTF8 (ID s), coerceUTF8 (Name s), coerceUTF8 (Branch s),
                 coerceUTF8 (CGPA s)], ''}'')"
    using readGoMember_goMember [of "''id''" "ID s"] readGoMember_goMember [of "''name''" "Name s"]
      readGoMember_goMember [of "''branch''" "Branch s"]
      readGoMember_goMember [of "''cgpa''" "CGPA s"]
    by (simp del: escapeString.simps readGoString.simps coerceUTF8.simps)
  then show ?thesis
    by (simp add: goUnmarshal_def goMarshal_def
          del: escapeString.simps readGoString.simps coerceUTF8.simps)
qed

lemma goCodec_roundtrip:
  assumes "validUTF8 (ID s)" "validUTF8 (Name s)" "validUTF8 (Branch s)" "validUTF8 (CGPA s)"
  shows "goUnmarshal (goMarshal s) = Inr s"
  using assms by (simp add: goUnmarshal_goMarshal coerceUTF8_valid)

subsection \<open>The sample instances, evaluated\<close>

lemma sample_create:
  "submit compactCodec healthyPeer (healthyNet ''tx1'') [] ''CreateStudent''
     [''S1'', ''Alice'', ''CSE'', ''9.1'']
   = (Inr [], [(''S1'', compactMarshal \<lparr>ID = ''S1'', Name = ''Alice'', Branch = ''CSE'', CGPA = ''9.1''\<rparr>)])"
  by (simp add: submit_def healthyNet_def healthyPeer_def invoke_def transactions_def CreateStudent_def
        StudentExists_def GetState_def PutState_def compactCodec_def)

lemma sample_tls:
  "newGrpcConnection sampleOs sampleLib [] =
     (Inr \<lparr>target = peerEndpoint,
           credentials = \<lparr>rootCAs = [Certificate ''tls-ca-pem''], serverName = gatewayPeer\<rparr>,
           handshakeDone = False\<rparr>, [tlsCertPath])"
  by (simp add: newGrpcConnection_def sampleOs_def sampleLib_def grpc_Dial_def AddCert_def
        NewCertPool_def NewClientTLSFromCert_def)

lemma certPath_neq_keyPath: "keyPath \<noteq> certPath"
  by (simp add: keyPath_def certPath_def)

lemma sample_readCert:
  "readFirstFile sampleOs certPath fr = (Inr ''user-cert-pem'', fr @ [certPath @ ''/cert.pem''])"
proof -
  have "certPath @ ''/cert.pem'' \<noteq> tlsCertPath"
    by (simp add: certPath_def tlsCertPath_def)
  then show ?thesis
    by (simp add: readFirstFile_def sampleOs_def Readdirnames_def)
qed

lemma sample_readKey:
  "readFirstFile sampleOs keyPath fr = (Inr ''user-key-pem'', fr @ [keyPath @ ''/priv_sk''])"
proof -
  have "keyPath @ ''/priv_sk'' \<noteq> tlsCertPath"
    "keyPath @ ''/priv_sk'' \<noteq> certPath @ ''/cert.pem''"
    by (simp_all add: keyPath_def certPath_def tlsCertPath_def)
  then show ?thesis
    using certPath_neq_keyPath
    by (simp add: readFirstFile_def sampleOs_def Readdirnames_def)
qed

lemma sample_identity:
  "newIdentity sampleOs sampleLib fr =
     (Inr \<lparr>idMspID = mspID, idCertificate = Certificate ''user-cert-pem''\<rparr>,
      fr @ [certPath @ ''/cert.pem''])"
  by (simp add: newIdentity_def sample_readCert sampleLib_def)

lemma sample_sign:
  "newSign sampleOs sampleLib fr =
     (Inr (Signer (PrivateKey ''user-key-pem'')), fr @ [keyPath @ ''/priv_sk''])"
  by (simp add: newSign_def sample_readKey sampleLib_def)

lemma sample_getenv: "os_Getenv sampleOs k = []"
  by (simp add: sampleOs_def)

lemma sample_init: "initFabricClient sampleOs sampleLib startApp = Inr sampleApp"
  by (simp add: initFabricClient_def startApp_def sample_tls sample_identity sample_sign
        client_Connect_def sampleApp_def sampleContract_def sampleGateway_def GetNetwork_def
        GetContract_def Second_def Minute_def sample_getenv Let_def)

lemma sample_contract: "contract sampleApp = Some sampleContract"
  by (simp add: sampleApp_def)

lemma sample_bind: "ShouldBindJSON (sampleWeb s) ''{}'' = Inr s"
  by (simp add: sampleWeb_def)

subsection \<open>The two modes of the gateway\<close>

lemma evaluate_ledger: "snd (evaluate cd pe nt w fn args) = w"
  by (simp add: evaluate_def split: option.splits sum.splits prod.splits)

lemma EvaluateTransaction_effect:
  "EvaluateTransaction cd pe nt ct r name args =
     (fst (evaluate cd pe nt (ledger r) name args),
      r\<lparr>calls := calls r @ [\<lparr>mode = Evaluate, operation = name, arguments = args\<rparr>]\<rparr>)"
proof -
  obtain res w' where e: "evaluate cd pe nt (ledger r) name args = (res, w')"
    by (cases "evaluate cd pe nt (ledger r) name args")
  with evaluate_ledger [of cd pe nt "ledger r" name args] have "w' = ledger r" by simp
  with e show ?thesis by (simp add: EvaluateTransaction_def)
qed

lemma SubmitTransaction_effect:
  "SubmitTransaction cd pe nt ct r name args =
     (fst (submit cd pe nt (ledger r) name args),
      r\<lparr>ledger := snd (submit cd pe nt (ledger r) name args),
        calls := calls r @ [\<lparr>mode = Submit, operation = name, arguments = args\<rparr>]\<rparr>)"
  by (simp add: SubmitTransaction_def split: prod.splits)

text \<open>An operation the contract rejects fails at endorsement and leaves the ledger alone.\<close>

lemma submit_rejected:
  "invoke cd pe w fn args = Inl e \<Longrightarrow>
   submit cd pe nt w fn args =
     (Inl (EndorseError (transactionID nt)
            (case endorseFault nt of None \<Rightarrow> Application e | Some f \<Rightarrow> io_cause f)), w)"
  by (simp add: submit_def split: option.splits)

lemma ReadStudent_writes_nothing:
  "invoke cd pe w ''ReadStudent'' [sid] = Inr (payload, w') \<Longrightarrow> w' = w"
  by (auto simp: invoke_def transactions_def returnStudent_def split: sum.splits)

lemma GetAllStudents_writes_nothing:
  "invoke cd pe w ''GetAllStudents'' [] = Inr (payload, w') \<Longrightarrow> w' = w"
  by (auto simp: invoke_def transactions_def returnStudents_def split: sum.splits)

subsection \<open>Creating and reading a student\<close>

text \<open>
  Over any codec that decodes what it encoded for the record: a submission of
  \<open>CreateStudent\<close> that succeeds was made on a ledger without the id, a later evaluation
  of \<open>ReadStudent\<close> returns bytes that decode to the record, and a second submission for
  the id fails at endorsement and leaves the ledger as it is.
\<close>

lemma create_read_back_any_codec:
  assumes created:
      "submit cd pe nt w ''CreateStudent'' [sid, name, branch, cgpa] = (Inr payload, w')"
    and codec:
      "\<And>b. json_Marshal cd \<lparr>ID = sid, Name = name, Branch = branch, CGPA = cgpa\<rparr> = Inr b
         \<Longrightarrow> json_Unmarshal cd b = Inr \<lparr>ID = sid, Name = name, Branch = branch, CGPA = cgpa\<rparr>"
    and read_env: "evaluateFault nt2 = None" "getErr pe2 sid = None"
    and again_env: "endorseFault nt3 = None" "getErr pe3 sid = None"
  shows "map_of w sid = None
    \<and> (\<exists>b. evaluate cd pe2 nt2 w' ''ReadStudent'' [sid] = (Inr b, w')
           \<and> json_Unmarshal cd b = Inr \<lparr>ID = sid, Name = name, Branch = branch, CGPA = cgpa\<rparr>)
    \<and> submit cd pe3 nt3 w' ''CreateStudent'' [sid, name', branch', cgpa']
        = (Inl (EndorseError (transactionID nt3) (Application (AlreadyExists sid))), w')"
proof -
  let ?s = "\<lparr>ID = sid, Name = name, Branch = branch, CGPA = cgpa\<rparr>"
  from created obtain b where
    absent: "map_of w sid = None" and m: "json_Marshal cd ?s = Inr b"
    and w': "w' = AList.update sid b w"
    by (auto simp: submit_def invoke_def transactions_def CreateStudent_def StudentExists_def
          GetState_def PutState_def Let_def split: option.splits sum.splits if_splits)
  have stored: "map_of w' sid = Some b"
    by (simp add: w' update_conv')
  have u: "json_Unmarshal cd b = Inr ?s"
    using codec m by simp
  have "evaluate cd pe2 nt2 w' ''ReadStudent'' [sid] = (Inr b, w')"
    using read_env stored u m
    by (simp add: evaluate_def invoke_def transactions_def ReadStudent_def GetState_def
          returnStudent_def)
  moreover have "submit cd pe3 nt3 w' ''CreateStudent'' [sid, name', branch', cgpa']
        = (Inl (EndorseError (transactionID nt3) (Application (AlreadyExists sid))), w')"
    using again_env stored
    by (simp add: submit_def invoke_def transactions_def CreateStudent_def StudentExists_def
          GetState_def)
  ultimately show ?thesis using absent u by simp
qed

text \<open>
  Claim C1, as stated, fails: \<open>json.Marshal\<close> coerces its strings to valid UTF-8. A
  student created with the name of the one byte \<open>0xFF\<close>, on an empty ledger, is stored
  with the replacement character for its name; the evaluation of \<open>ReadStudent\<close> returns
  bytes that decode to a record with that name, which is not the record created.
\<close>

theorem CreateStudent_invalid_utf8_counterexample:
  "submit goCodec healthyPeer (healthyNet ''tx1'') [] ''CreateStudent''
     [''S1'', [CHR 0xFF], ''CSE'', ''9.1'']
   = (Inr [],
      [(''S1'', goMarshal \<lparr>ID = ''S1'', Name = [CHR 0xFF], Branch = ''CSE'', CGPA = ''9.1''\<rparr>)])
   \<and> evaluate goCodec healthyPeer (healthyNet ''tx2'')
        [(''S1'', goMarshal \<lparr>ID = ''S1'', Name = [CHR 0xFF], Branch = ''CSE'', CGPA = ''9.1''\<rparr>)]
        ''ReadStudent'' [''S1'']
      = (Inr (goMarshal \<lparr>ID = ''S1'', Name = [CHR 0xEF, CHR 0xBF, CHR 0xBD],
                         Branch = ''CSE'', CGPA = ''9.1''\<rparr>),
         [(''S1'', goMarshal \<lparr>ID = ''S1'', Name = [CHR 0xFF], Branch = ''CSE'', CGPA = ''9.1''\<rparr>)])
   \<and> json_Unmarshal goCodec
        (goMarshal \<lparr>ID = ''S1'', Name = [CHR 0xEF, CHR 0xBF, CHR 0xBD],
                    Branch = ''CSE'', CGPA = ''9.1''\<rparr>)
      = Inr \<lparr>ID = ''S1'', Name = [CHR 0xEF, CHR 0xBF, CHR 0xBD], Branch = ''CSE'', CGPA = ''9.1''\<rparr>
   \<and> json_Unmarshal goCodec
        (goMarshal \<lparr>ID = ''S1'', Name = [CHR 0xEF, CHR 0xBF, CHR 0xBD],
                    Branch = ''CSE'', CGPA = ''9.1''\<rparr>)
      \<noteq> Inr \<lparr>ID = ''S1'', Name = [CHR 0xFF], Branch = ''CSE'', CGPA = ''9.1''\<rparr>"
proof -
  let ?bad = "\<lparr>ID = ''S1'', Name = [CHR 0xFF], Branch = ''CSE'', CGPA = ''9.1''\<rparr>"
  let ?coerced = "\<lparr>ID = ''S1'', Name = [CHR 0xEF, CHR 0xBF, CHR 0xBD],
                   Branch = ''CSE'', CGPA = ''9.1''\<rparr>"
  have ascii: "coerceUTF8 ''S1'' = ''S1''" "coerceUTF8 ''CSE'' = ''CSE''"
    "coerceUTF8 ''9.1'' = ''9.1''"
    by simp_all
  have rep: "coerceUTF8 [CHR 0xEF, CHR 0xBF, CHR 0xBD] = [CHR 0xEF, CHR 0xBF, CHR 0xBD]"
    by (simp add: continuation_def secondByte_def)
  have decoded: "goUnmarshal (goMarshal ?bad) = Inr ?coerced"
    by (simp add: goUnmarshal_goMarshal ascii coerceUTF8_invalid_byte
          del: coerceUTF8.simps)
  have again: "goUnmarshal (goMarshal ?coerced) = Inr ?coerced"
    by (simp add: goUnmarshal_goMarshal ascii rep del: coerceUTF8.simps)
  have created: "submit goCodec healthyPeer (healthyNet ''tx1'') [] ''CreateStudent''
       [''S1'', [CHR 0xFF], ''CSE'', ''9.1''] = (Inr [], [(''S1'', goMarshal ?bad)])"
    by (simp add: submit_def healthyNet_def healthyPeer_def invoke_def transactions_def
          CreateStudent_def StudentExists_def GetState_def PutState_def goCodec_def)
  have read: "evaluate goCodec healthyPeer (healthyNet ''tx2'') [(''S1'', goMarshal ?bad)]
       ''ReadStudent'' [''S1''] = (Inr (goMarshal ?coerced), [(''S1'', goMarshal ?bad)])"
    using decoded
    by (simp add: evaluate_def healthyNet_def healthyPeer_def invoke_def transactions_def
          ReadStudent_def GetState_def returnStudent_def goCodec_def)
  show ?thesis
    using created read again by (simp add: goCodec_def)
qed

text \<open>
  Claim C1, amended. For every student id and field values that are valid UTF-8: a
  submission of \<open>CreateStudent\<close> that succeeds was made on a ledger without the id and
  stores the record. A later evaluation of \<open>ReadStudent\<close> for the id, on a peer that
  answers, returns bytes that decode to exactly the record created, and leaves the
  ledger as it is. A second submission of \<open>CreateStudent\<close> for the same id, with any
  field values, fails at endorsement with the contract's error that the student already
  exists, and the ledger, with the stored record, is unchanged.
\<close>

theorem CreateStudent_read_back_valid_utf8:
  assumes valid: "validUTF8 sid" "validUTF8 name" "validUTF8 branch" "validUTF8 cgpa"
    and created:
      "submit goCodec pe nt w ''CreateStudent'' [sid, name, branch, cgpa] = (Inr payload, w')"
    and read_env: "evaluateFault nt2 = None" "getErr pe2 sid = None"
    and again_env: "endorseFault nt3 = None" "getErr pe3 sid = None"
  shows "map_of w sid = None
    \<and> (\<exists>b. evaluate goCodec pe2 nt2 w' ''ReadStudent'' [sid] = (Inr b, w')
           \<and> json_Unmarshal goCodec b
               = Inr \<lparr>ID = sid, Name = name, Branch = branch, CGPA = cgpa\<rparr>)
    \<and> submit goCodec pe3 nt3 w' ''CreateStudent'' [sid, name', branch', cgpa']
        = (Inl (EndorseError (transactionID nt3) (Application (AlreadyExists sid))), w')"
proof -
  let ?s = "\<lparr>ID = sid, Name = name, Branch = branch, CGPA = cgpa\<rparr>"
  have "goUnmarshal (goMarshal ?s) = Inr ?s"
    using valid by (simp add: goCodec_roundtrip)
  then have codec: "\<And>b. json_Marshal goCodec ?s = Inr b \<Longrightarrow> json_Unmarshal goCodec b = Inr ?s"
    by (auto simp: goCodec_def)
  show ?thesis
    by (rule create_read_back_any_codec [OF created codec read_env again_env])
qed

theorem CreateStudent_read_back_valid_utf8_witness:
  "validUTF8 ''S1'' \<and> validUTF8 [CHR ''Z'', CHR ''o'', CHR 0xC3, CHR 0xAB]
   \<and> validUTF8 ''CSE'' \<and> validUTF8 ''9.1''
   \<and> submit goCodec healthyPeer (healthyNet ''tx1'') [] ''CreateStudent''
        [''S1'', [CHR ''Z'', CHR ''o'', CHR 0xC3, CHR 0xAB], ''CSE'', ''9.1'']
      = (Inr [],
         [(''S1'', goMarshal \<lparr>ID = ''S1'', Name = [CHR ''Z'', CHR ''o'', CHR 0xC3, CHR 0xAB],
                              Branch = ''CSE'', CGPA = ''9.1''\<rparr>)])
   \<and> (\<exists>b. evaluate goCodec healthyPeer (healthyNet ''tx2'')
             [(''S1'', goMarshal \<lparr>ID = ''S1'', Name = [CHR ''Z'', CHR ''o'', CHR 0xC3, CHR 0xAB],
                                  Branch = ''CSE'', CGPA = ''9.1''\<rparr>)]
             ''ReadStudent'' [''S1'']
           = (Inr b,
              [(''S1'', goMarshal \<lparr>ID = ''S1'', Name = [CHR ''Z'', CHR ''o'', CHR 0xC3, CHR 0xAB],
                                   Branch = ''CSE'', CGPA = ''9.1''\<rparr>)])
         \<and> json_Unmarshal goCodec b
           = Inr \<lparr>ID = ''S1'', Name = [CHR ''Z'', CHR ''o'', CHR 0xC3, CHR 0xAB],
                  Branch = ''CSE'', CGPA = ''9.1''\<rparr>)
   \<and> submit goCodec healthyPeer (healthyNet ''tx3'')
        [(''S1'', goMarshal \<lparr>ID = ''S1'', Name = [CHR ''Z'', CHR ''o'', CHR 0xC3, CHR 0xAB],
                             Branch = ''CSE'', CGPA = ''9.1''\<rparr>)]
        ''CreateStudent'' [''S1'', ''Eve'', ''ECE'', ''7.0'']
      = (Inl (EndorseError ''tx3'' (Application (AlreadyExists ''S1''))),
         [(''S1'', goMarshal \<lparr>ID = ''S1'', Name = [CHR ''Z'', CHR ''o'', CHR 0xC3, CHR 0xAB],
                              Branch = ''CSE'', CGPA = ''9.1''\<rparr>)])"
proof -
  let ?name = "[CHR ''Z'', CHR ''o'', CHR 0xC3, CHR 0xAB]"
  let ?s = "\<lparr>ID = ''S1'', Name = ?name, Branch = ''CSE'', CGPA = ''9.1''\<rparr>"
  have valid: "validUTF8 ''S1''" "validUTF8 ?name" "validUTF8 ''CSE''" "validUTF8 ''9.1''"
    by (simp_all add: continuation_def)
  have created: "submit goCodec healthyPeer (healthyNet ''tx1'') [] ''CreateStudent''
       [''S1'', ?name, ''CSE'', ''9.1''] = (Inr [], [(''S1'', goMarshal ?s)])"
    by (simp add: submit_def healthyNet_def healthyPeer_def invoke_def transactions_def
          CreateStudent_def StudentExists_def GetState_def PutState_def goCodec_def)
  have e2: "evaluateFault (healthyNet ''tx2'') = None" "getErr healthyPeer ''S1'' = None"
    by (simp_all add: healthyNet_def healthyPeer_def)
  have e3: "endorseFault (healthyNet ''tx3'') = None" "getErr healthyPeer ''S1'' = None"
    by (simp_all add: healthyNet_def healthyPeer_def)
  have tx: "transactionID (healthyNet ''tx3'') = ''tx3''"
    by (simp add: healthyNet_def)
  from CreateStudent_read_back_valid_utf8
         [OF valid created e2 e3, of "''Eve''" "''ECE''" "''7.0''"] valid created tx
  show ?thesis by simp
qed

subsection \<open>The create handler against the contract\<close>

text \<open>What the dispatcher does with the arguments of \<open>CreateStudent\<close>.\<close>

lemma invoke_CreateStudent_too_few:
  "length args < 4 \<Longrightarrow>
   invoke cd pe w ''CreateStudent'' args = Inl (IncorrectParams 4 (length args))"
  by (simp add: invoke_def transactions_def)

lemma invoke_CreateStudent_first_four:
  "invoke cd pe w ''CreateStudent'' (sid # name # branch # cgpa # surplus) =
     (case CreateStudent cd pe w sid name branch cgpa of
        Inl e \<Rightarrow> Inl e
      | Inr w' \<Rightarrow> Inr ([], w'))"
  by (simp add: invoke_def transactions_def)

text \<open>
  Claim C2. For a request body that binds to a student, the handler \<open>createStudent\<close>
  submits the operation \<open>CreateStudent\<close> with exactly the five arguments ID, Name,
  Department, Year and CGPA of the body, in this order and unchanged, whatever becomes
  of the submission. The contract's \<open>CreateStudent\<close> has exactly the four parameters id,
  name, branch and cgpa. So the arguments of no create the handler issues are as many
  as the parameters of the contract's function.
\<close>

theorem createStudent_five_arguments_against_four:
  assumes bound: "ShouldBindJSON wb (requestBody c) = Inr student"
    and init: "contract a = Some ct"
  shows "calls (snd (snd (createStudent cd wb pe nt c a r)))
      = calls r @
          [\<lparr>mode = Submit, operation = ''CreateStudent'',
            arguments = [apiID student, apiName student, apiDepartment student,
                         apiYear student, apiCGPA student]\<rparr>]
    \<and> length [apiID student, apiName student, apiDepartment student,
               apiYear student, apiCGPA student] = 5
    \<and> map_of transactions ''CreateStudent'' = Some [''id'', ''name'', ''branch'', ''cgpa'']
    \<and> length [''id'', ''name'', ''branch'', ''cgpa''] = 4
    \<and> (\<forall>params. map_of transactions ''CreateStudent'' = Some params \<longrightarrow>
          length [apiID student, apiName student, apiDepartment student,
                  apiYear student, apiCGPA student] \<noteq> length params)"
proof -
  have "calls (snd (snd (createStudent cd wb pe nt c a r)))
      = calls r @
          [\<lparr>mode = Submit, operation = ''CreateStudent'',
            arguments = [apiID student, apiName student, apiDepartment student,
                         apiYear student, apiCGPA student]\<rparr>]"
    using bound init
    by (simp add: createStudent_def SubmitTransaction_effect split: sum.splits)
  moreover have "map_of transactions ''CreateStudent''
                   = Some [''id'', ''name'', ''branch'', ''cgpa'']"
    by (simp add: transactions_def)
  ultimately show ?thesis by simp
qed

theorem createStudent_five_arguments_against_four_witness:
  "ShouldBindJSON (sampleWeb sampleStudent) ''{}'' = Inr sampleStudent
   \<and> contract sampleApp = Some sampleContract
   \<and> calls (snd (snd (createStudent compactCodec (sampleWeb sampleStudent) healthyPeer
        (healthyNet ''tx1'') \<lparr>Param = (\<lambda>k. []), requestBody = ''{}''\<rparr> sampleApp emptyRemote)))
      = [\<lparr>mode = Submit, operation = ''CreateStudent'',
          arguments = [''STU001'', ''Alice'', ''Computer Science'', ''4'', ''9.2'']\<rparr>]
   \<and> map_of transactions ''CreateStudent'' = Some [''id'', ''name'', ''branch'', ''cgpa'']"
proof -
  have bound: "ShouldBindJSON (sampleWeb sampleStudent)
                 (requestBody \<lparr>Param = (\<lambda>k. []), requestBody = ''{}''\<rparr>) = Inr sampleStudent"
    by (simp add: sample_bind)
  from createStudent_five_arguments_against_four [OF bound sample_contract,
         of compactCodec healthyPeer "healthyNet ''tx1''" emptyRemote]
  show ?thesis
    by (simp add: sample_bind sample_contract emptyRemote_def sampleStudent_def)
qed

subsection \<open>Evaluation does not change the ledger\<close>

text \<open>
  Claim C3. On every ledger state, evaluating \<open>ReadStudent\<close> with any id or
  \<open>GetAllStudents\<close> leaves the ledger as it was, and the same evaluation repeated on the
  state the first one left gives the same result, bytes or error. The two operations of
  the contract write nothing themselves: where they return, the state their simulation
  leaves is the state it started from.
\<close>

theorem evaluate_reads_leave_ledger:
  "snd (evaluate cd pe nt w ''ReadStudent'' [sid]) = w
   \<and> snd (evaluate cd pe nt w ''GetAllStudents'' []) = w
   \<and> evaluate cd pe nt (snd (evaluate cd pe nt w ''ReadStudent'' [sid])) ''ReadStudent'' [sid]
       = evaluate cd pe nt w ''ReadStudent'' [sid]
   \<and> evaluate cd pe nt (snd (evaluate cd pe nt w ''GetAllStudents'' [])) ''GetAllStudents'' []
       = evaluate cd pe nt w ''GetAllStudents'' []
   \<and> (\<forall>payload w'. invoke cd pe w ''ReadStudent'' [sid] = Inr (payload, w') \<longrightarrow> w' = w)
   \<and> (\<forall>payload w'. invoke cd pe w ''GetAllStudents'' [] = Inr (payload, w') \<longrightarrow> w' = w)"
  using ReadStudent_writes_nothing GetAllStudents_writes_nothing
  by (simp add: evaluate_ledger)

theorem evaluate_reads_leave_ledger_witness:
  "invoke compactCodec healthyPeer
     [(''S1'', compactMarshal \<lparr>ID = ''S1'', Name = ''Alice'', Branch = ''CSE'', CGPA = ''9.1''\<rparr>)]
     ''ReadStudent'' [''S1'']
   = Inr (compactMarshal \<lparr>ID = ''S1'', Name = ''Alice'', Branch = ''CSE'', CGPA = ''9.1''\<rparr>,
          [(''S1'', compactMarshal \<lparr>ID = ''S1'', Name = ''Alice'', Branch = ''CSE'', CGPA = ''9.1''\<rparr>)])
   \<and> invoke compactCodec healthyPeer
     [(''S1'', compactMarshal \<lparr>ID = ''S1'', Name = ''Alice'', Branch = ''CSE'', CGPA = ''9.1''\<rparr>)]
     ''GetAllStudents'' []
   = Inr (compactMarshalList [\<lparr>ID = ''S1'', Name = ''Alice'', Branch = ''CSE'', CGPA = ''9.1''\<rparr>],
          [(''S1'', compactMarshal \<lparr>ID = ''S1'', Name = ''Alice'', Branch = ''CSE'', CGPA = ''9.1''\<rparr>)])
   \<and> snd (evaluate compactCodec healthyPeer (healthyNet ''tx'')
        [(''S1'', compactMarshal \<lparr>ID = ''S1'', Name = ''Alice'', Branch = ''CSE'', CGPA = ''9.1''\<rparr>)]
        ''ReadStudent'' [''S1''])
      = [(''S1'', compactMarshal \<lparr>ID = ''S1'', Name = ''Alice'', Branch = ''CSE'', CGPA = ''9.1''\<rparr>)]"
proof -
  let ?s = "\<lparr>ID = ''S1'', Name = ''Alice'', Branch = ''CSE'', CGPA = ''9.1''\<rparr>"
  let ?w = "[(''S1'', compactMarshal ?s)]"
  have r: "invoke compactCodec healthyPeer ?w ''ReadStudent'' [''S1'']
             = Inr (compactMarshal ?s, ?w)"
    by (simp add: invoke_def transactions_def ReadStudent_def GetState_def healthyPeer_def compactCodec_def
          compactCodec_roundtrip returnStudent_def)
  have g: "invoke compactCodec healthyPeer ?w ''GetAllStudents'' []
             = Inr (compactMarshalList [?s], ?w)"
    by (simp add: invoke_def transactions_def GetAllStudents_def GetStateByRange_def healthyPeer_def
          compactCodec_def compactCodec_roundtrip returnStudents_def)
  from evaluate_reads_leave_ledger [of compactCodec healthyPeer "healthyNet ''tx''" ?w "''S1''"]
    r g
  show ?thesis by simp
qed

subsection \<open>The errors of a submission\<close>

text \<open>
  Claim C4. A submission that fails returns an error of exactly one of the four phases,
  endorsement, submission to ordering, commit status or commit, and the error carries
  the transaction ID; the client's \<open>exampleErrorHandling\<close> reports it under that phase
  and never reaches its branch for an unexpected error. A wait for the commit status
  that runs out of time is a commit-status error with the deadline-exceeded cause, which
  the client reports as a timeout; a status that was retrieved and is not valid is a
  commit error with the status code. The two reports differ, whatever the transaction.
\<close>

theorem submit_error_phases:
  assumes failed: "submit cd pe nt w fn args = (Inl err, w')"
  shows "((\<exists>c. err = EndorseError (transactionID nt) c
             \<and> errorReport err = EndorseReport (transactionID nt) c)
      \<or> (\<exists>c. err = SubmitError (transactionID nt) c
             \<and> errorReport err = SubmitReport (transactionID nt) c)
      \<or> (err = CommitStatusError (transactionID nt) DeadlineExceeded
           \<and> statusFault nt = Some Timeout
           \<and> errorReport err = TimeoutReport (transactionID nt))
      \<or> (\<exists>m. err = CommitStatusError (transactionID nt) (Transport m)
           \<and> errorReport err = CommitStatusReport (transactionID nt) (Transport m))
      \<or> (err = CommitError (transactionID nt) (validationCode nt)
           \<and> validationCode nt \<noteq> 0 \<and> statusFault nt = None
           \<and> errorReport err = CommitReport (transactionID nt) (validationCode nt)))
    \<and> (\<forall>tx tx' code. errorReport (CommitStatusError tx DeadlineExceeded)
                        \<noteq> errorReport (CommitError tx' code))"
proof -
  have "err = EndorseError (transactionID nt)
                (case endorseFault nt of
                   Some f \<Rightarrow> io_cause f
                 | None \<Rightarrow>
                     (case invoke cd pe w fn args of
                        Inl e \<Rightarrow> Application e
                      | Inr _ \<Rightarrow> undefined))
      \<or> (\<exists>f. submitFault nt = Some f \<and> err = SubmitError (transactionID nt) (io_cause f))
      \<or> (\<exists>f. statusFault nt = Some f
             \<and> err = CommitStatusError (transactionID nt) (io_cause f))
      \<or> (statusFault nt = None \<and> validationCode nt \<noteq> 0
           \<and> err = CommitError (transactionID nt) (validationCode nt))"
    using failed
    by (auto simp: submit_def Let_def split: option.splits sum.splits prod.splits if_splits)
  then show ?thesis
  proof (elim disjE exE conjE)
    fix f
    assume "statusFault nt = Some f"
      "err = CommitStatusError (transactionID nt) (io_cause f)"
    then show ?thesis by (cases f) auto
  qed auto
qed

theorem submit_error_phases_witness:
  "submit compactCodec healthyPeer ((healthyNet ''tx7'')\<lparr>statusFault := Some Timeout\<rparr>) []
     ''CreateStudent'' [''S1'', ''Alice'', ''CSE'', ''9.1'']
   = (Inl (CommitStatusError ''tx7'' DeadlineExceeded),
      [(''S1'', compactMarshal \<lparr>ID = ''S1'', Name = ''Alice'', Branch = ''CSE'', CGPA = ''9.1''\<rparr>)])
   \<and> errorReport (CommitStatusError ''tx7'' DeadlineExceeded) = TimeoutReport ''tx7''
   \<and> (\<forall>tx tx' code. errorReport (CommitStatusError tx DeadlineExceeded)
                        \<noteq> errorReport (CommitError tx' code))"
proof -
  let ?nt = "(healthyNet ''tx7'')\<lparr>statusFault := Some Timeout\<rparr>"
  have failed: "submit compactCodec healthyPeer ?nt [] ''CreateStudent''
       [''S1'', ''Alice'', ''CSE'', ''9.1'']
     = (Inl (CommitStatusError ''tx7'' DeadlineExceeded),
        [(''S1'', compactMarshal \<lparr>ID = ''S1'', Name = ''Alice'', Branch = ''CSE'', CGPA = ''9.1''\<rparr>)])"
    by (simp add: submit_def healthyNet_def healthyPeer_def invoke_def transactions_def CreateStudent_def
          StudentExists_def GetState_def PutState_def compactCodec_def)
  from submit_error_phases [OF failed] failed show ?thesis by simp
qed

subsection \<open>Deleting a student\<close>

text \<open>
  Claim C5. The contract has no operation \<open>DeleteStudent\<close>. A submission of it, for an id
  that is not in the ledger as for any other, reaches no ordering: where the endorsing
  peer is reached it fails at endorsement with the contract's error that the function
  is not found, the ledger is unchanged, and the handler \<open>deleteStudent\<close> answers 500
  with this error in its message. The error is an application error and differs from
  the cause of every transport fault.
\<close>

theorem deleteStudent_application_error:
  assumes init: "contract a = Some ct"
  shows "submit cd pe nt w ''DeleteStudent'' [sid]
      = (Inl (EndorseError (transactionID nt)
               (case endorseFault nt of
                  None \<Rightarrow> Application (FunctionNotFound ''DeleteStudent'')
                | Some f \<Rightarrow> io_cause f)), w)
    \<and> deleteStudent cd pe nt c a r
      = (\<lparr>status = 500,
          body = ErrorMessage ''Failed to delete student''
                   (GatewayFailure (EndorseError (transactionID nt)
                      (case endorseFault nt of
                         None \<Rightarrow> Application (FunctionNotFound ''DeleteStudent'')
                       | Some f \<Rightarrow> io_cause f)))\<rparr>,
         a,
         r\<lparr>calls := calls r @
              [\<lparr>mode = Submit, operation = ''DeleteStudent'',
                arguments = [Param c ''id'']\<rparr>]\<rparr>)
    \<and> (\<forall>f. Application (FunctionNotFound ''DeleteStudent'') \<noteq> io_cause f)"
proof -
  have nf: "invoke cd pe w' ''DeleteStudent'' [x] = Inl (FunctionNotFound ''DeleteStudent'')"
    for w' x
    by (simp add: invoke_def transactions_def)
  have s: "submit cd pe nt w' ''DeleteStudent'' [x]
      = (Inl (EndorseError (transactionID nt)
               (case endorseFault nt of
                  None \<Rightarrow> Application (FunctionNotFound ''DeleteStudent'')
                | Some f \<Rightarrow> io_cause f)), w')" for w' x
    by (rule submit_rejected) (rule nf)
  have d: "Application (FunctionNotFound ''DeleteStudent'') \<noteq> io_cause f" for f
    by (cases f) simp_all
  show ?thesis
    using init s d by (simp add: deleteStudent_def SubmitTransaction_effect Let_def)
qed

theorem deleteStudent_application_error_witness:
  "contract sampleApp = Some sampleContract
   \<and> map_of (ledger emptyRemote) ''S9'' = None
   \<and> submit compactCodec healthyPeer (healthyNet ''tx4'') (ledger emptyRemote)
        ''DeleteStudent'' [''S9'']
      = (Inl (EndorseError ''tx4'' (Application (FunctionNotFound ''DeleteStudent''))), [])
   \<and> deleteStudent compactCodec healthyPeer (healthyNet ''tx4'')
        \<lparr>Param = (\<lambda>k. if k = ''id'' then ''S9'' else []), requestBody = []\<rparr>
        sampleApp emptyRemote
      = (\<lparr>status = 500,
          body = ErrorMessage ''Failed to delete student''
                   (GatewayFailure (EndorseError ''tx4''
                      (Application (FunctionNotFound ''DeleteStudent''))))\<rparr>,
         sampleApp,
         \<lparr>ledger = [],
          calls = [\<lparr>mode = Submit, operation = ''DeleteStudent'', arguments = [''S9'']\<rparr>]\<rparr>)"
  using deleteStudent_application_error [OF sample_contract,
          of compactCodec healthyPeer "healthyNet ''tx4''" "ledger emptyRemote" "''S9''"
             "\<lparr>Param = (\<lambda>k. if k = ''id'' then ''S9'' else []), requestBody = []\<rparr>"
             emptyRemote]
  by (simp add: sample_contract healthyNet_def emptyRemote_def)

subsection \<open>Loading the credentials\<close>

lemma readFirstFile_cases:
  "readFirstFile sys d fr =
     (case os_Open sys d of
        Inl e \<Rightarrow> (Inl e, fr)
      | Inr None \<Rightarrow> (Inl ''not a directory'', fr)
      | Inr (Some []) \<Rightarrow> (Inl ''EOF'', fr)
      | Inr (Some (f # fs)) \<Rightarrow> (os_ReadFile sys (path_Join sys d f), fr @ [path_Join sys d f]))"
  by (simp add: readFirstFile_def Readdirnames_def split: sum.splits option.splits list.splits)

text \<open>
  The failures besides those of an unreadable or empty directory and of the parser: a path
  that is no directory and a first entry that cannot be read are read errors, a
  constructor that refuses what was parsed panics with its error as the parser does.
\<close>

lemma newIdentity_other_failures:
  "(os_Open sys certPath = Inr None \<longrightarrow>
      newIdentity sys lb fr = (Inl (FailedToReadCertificate ''not a directory''), fr))
   \<and> (\<forall>f fs e. os_Open sys certPath = Inr (Some (f # fs))
          \<and> os_ReadFile sys (path_Join sys certPath f) = Inl e \<longrightarrow>
        newIdentity sys lb fr
          = (Inl (FailedToReadCertificate e), fr @ [path_Join sys certPath f]))
   \<and> (\<forall>f fs pem cert e. os_Open sys certPath = Inr (Some (f # fs))
          \<and> os_ReadFile sys (path_Join sys certPath f) = Inr pem
          \<and> CertificateFromPEM lb pem = Inr cert
          \<and> NewX509Identity lb mspID cert = Inl e \<longrightarrow>
        newIdentity sys lb fr = (Inl (LibraryPanic e), fr @ [path_Join sys certPath f]))"
  by (simp add: newIdentity_def readFirstFile_cases)

lemma newSign_other_failures:
  "(os_Open sys keyPath = Inr None \<longrightarrow>
      newSign sys lb fr = (Inl (FailedToReadPrivateKey ''not a directory''), fr))
   \<and> (\<forall>f fs e. os_Open sys keyPath = Inr (Some (f # fs))
          \<and> os_ReadFile sys (path_Join sys keyPath f) = Inl e \<longrightarrow>
        newSign sys lb fr
          = (Inl (FailedToReadPrivateKey e), fr @ [path_Join sys keyPath f]))
   \<and> (\<forall>f fs pem key e. os_Open sys keyPath = Inr (Some (f # fs))
          \<and> os_ReadFile sys (path_Join sys keyPath f) = Inr pem
          \<and> PrivateKeyFromPEM lb pem = Inr key
          \<and> NewPrivateKeySign lb key = Inl e \<longrightarrow>
        newSign sys lb fr = (Inl (LibraryPanic e), fr @ [path_Join sys keyPath f]))"
  by (simp add: newSign_def readFirstFile_cases)

text \<open>
  Claim C6. \<open>newIdentity\<close> and \<open>newSign\<close> read the first entry of their directory and
  parse it. Each panics with its read error when the directory cannot be opened and when
  it is empty, reading no file; with the parser's error when the content of the first
  entry does not parse; and, when the content parses and the identity or the signing
  function can be built from it, returns that identity or signing function, having read
  the one file.
\<close>

theorem credential_loading:
  "(\<forall>e. os_Open sys certPath = Inl e \<longrightarrow>
        newIdentity sys lb fr = (Inl (FailedToReadCertificate e), fr))
   \<and> (os_Open sys certPath = Inr (Some []) \<longrightarrow>
        newIdentity sys lb fr = (Inl (FailedToReadCertificate ''EOF''), fr))
   \<and> (\<forall>f fs pem e. os_Open sys certPath = Inr (Some (f # fs))
          \<and> os_ReadFile sys (path_Join sys certPath f) = Inr pem
          \<and> CertificateFromPEM lb pem = Inl e \<longrightarrow>
        newIdentity sys lb fr = (Inl (LibraryPanic e), fr @ [path_Join sys certPath f]))
   \<and> (\<forall>f fs pem cert ident. os_Open sys certPath = Inr (Some (f # fs))
          \<and> os_ReadFile sys (path_Join sys certPath f) = Inr pem
          \<and> CertificateFromPEM lb pem = Inr cert
          \<and> NewX509Identity lb mspID cert = Inr ident \<longrightarrow>
        newIdentity sys lb fr = (Inr ident, fr @ [path_Join sys certPath f]))
   \<and> (\<forall>e. os_Open sys keyPath = Inl e \<longrightarrow>
        newSign sys lb fr = (Inl (FailedToReadPrivateKey e), fr))
   \<and> (os_Open sys keyPath = Inr (Some []) \<longrightarrow>
        newSign sys lb fr = (Inl (FailedToReadPrivateKey ''EOF''), fr))
   \<and> (\<forall>f fs pem e. os_Open sys keyPath = Inr (Some (f # fs))
          \<and> os_ReadFile sys (path_Join sys keyPath f) = Inr pem
          \<and> PrivateKeyFromPEM lb pem = Inl e \<longrightarrow>
        newSign sys lb fr = (Inl (LibraryPanic e), fr @ [path_Join sys keyPath f]))
   \<and> (\<forall>f fs pem key sign. os_Open sys keyPath = Inr (Some (f # fs))
          \<and> os_ReadFile sys (path_Join sys keyPath f) = Inr pem
          \<and> PrivateKeyFromPEM lb pem = Inr key
          \<and> NewPrivateKeySign lb key = Inr sign \<longrightarrow>
        newSign sys lb fr = (Inr sign, fr @ [path_Join sys keyPath f]))"
  by (simp add: newIdentity_def newSign_def readFirstFile_cases)

theorem credential_loading_witness:
  "newIdentity (sampleOs\<lparr>os_Open := (\<lambda>_. Inl ''permission denied'')\<rparr>) sampleLib []
     = (Inl (FailedToReadCertificate ''permission denied''), [])
   \<and> newIdentity (sampleOs\<lparr>os_Open := (\<lambda>_. Inr (Some []))\<rparr>) sampleLib []
     = (Inl (FailedToReadCertificate ''EOF''), [])
   \<and> newIdentity sampleOs (sampleLib\<lparr>CertificateFromPEM := (\<lambda>_. Inl ''no PEM data'')\<rparr>) []
     = (Inl (LibraryPanic ''no PEM data''), [certPath @ ''/cert.pem''])
   \<and> newIdentity sampleOs sampleLib []
     = (Inr \<lparr>idMspID = mspID, idCertificate = Certificate ''user-cert-pem''\<rparr>,
        [certPath @ ''/cert.pem''])
   \<and> newSign (sampleOs\<lparr>os_Open := (\<lambda>_. Inl ''permission denied'')\<rparr>) sampleLib []
     = (Inl (FailedToReadPrivateKey ''permission denied''), [])
   \<and> newSign (sampleOs\<lparr>os_Open := (\<lambda>_. Inr (Some []))\<rparr>) sampleLib []
     = (Inl (FailedToReadPrivateKey ''EOF''), [])
   \<and> newSign sampleOs (sampleLib\<lparr>PrivateKeyFromPEM := (\<lambda>_. Inl ''no PEM data'')\<rparr>) []
     = (Inl (LibraryPanic ''no PEM data''), [keyPath @ ''/priv_sk''])
   \<and> newSign sampleOs sampleLib []
     = (Inr (Signer (PrivateKey ''user-key-pem'')), [keyPath @ ''/priv_sk''])"
proof -
  let ?denied = "sampleOs\<lparr>os_Open := (\<lambda>_. Inl ''permission denied'')\<rparr>"
  let ?empty = "sampleOs\<lparr>os_Open := (\<lambda>_. Inr (Some []))\<rparr>"
  let ?badCert = "sampleLib\<lparr>CertificateFromPEM := (\<lambda>_. Inl ''no PEM data'')\<rparr>"
  let ?badKey = "sampleLib\<lparr>PrivateKeyFromPEM := (\<lambda>_. Inl ''no PEM data'')\<rparr>"
  have openCert: "os_Open sampleOs certPath = Inr (Some [''cert.pem''])"
    by (simp add: sampleOs_def)
  have openKey: "os_Open sampleOs keyPath = Inr (Some [''priv_sk''])"
    using certPath_neq_keyPath by (simp add: sampleOs_def)
  have join: "path_Join sampleOs d f = d @ ''/'' @ f" for d f
    by (simp add: sampleOs_def)
  have readCert: "os_ReadFile sampleOs (certPath @ ''/cert.pem'') = Inr ''user-cert-pem''"
    using sample_readCert [of "[]"] openCert by (simp add: readFirstFile_cases join)
  have readKey: "os_ReadFile sampleOs (keyPath @ ''/priv_sk'') = Inr ''user-key-pem''"
    using sample_readKey [of "[]"] openKey by (simp add: readFirstFile_cases join)
  have lib:
    "CertificateFromPEM sampleLib ''user-cert-pem'' = Inr (Certificate ''user-cert-pem'')"
    "NewX509Identity sampleLib mspID (Certificate ''user-cert-pem'')
       = Inr \<lparr>idMspID = mspID, idCertificate = Certificate ''user-cert-pem''\<rparr>"
    "PrivateKeyFromPEM sampleLib ''user-key-pem'' = Inr (PrivateKey ''user-key-pem'')"
    "NewPrivateKeySign sampleLib (PrivateKey ''user-key-pem'')
       = Inr (Signer (PrivateKey ''user-key-pem''))"
    by (simp_all add: sampleLib_def)
  show ?thesis
    using credential_loading [of ?denied sampleLib "[]"]
      credential_loading [of ?empty sampleLib "[]"]
      credential_loading [of sampleOs ?badCert "[]"]
      credential_loading [of sampleOs ?badKey "[]"]
      credential_loading [of sampleOs sampleLib "[]"]
      openCert openKey readCert readKey lib
    by (simp add: join)
qed

subsection \<open>The secure channel\<close>

text \<open>
  Claim C7. A connection that \<open>newGrpcConnection\<close> returns carries a certificate pool
  holding exactly one certificate, the one parsed from the TLS certificate file of the
  peer, and checks the server's name against \<open>gatewayPeer\<close>; it is for \<open>peerEndpoint\<close>
  and its handshake has not been done. Having a connection says nothing about the peer:
  an evaluation or a submission on an unreachable network still fails with the
  transport error.
\<close>

theorem newGrpcConnection_pinned_trust:
  assumes "newGrpcConnection sys lb fr = (Inr conn, fr')"
  shows "(\<exists>pem cert. os_ReadFile sys tlsCertPath = Inr pem
            \<and> CertificateFromPEM lb pem = Inr cert
            \<and> rootCAs (credentials conn) = [cert])
    \<and> serverName (credentials conn) = gatewayPeer
    \<and> target conn = peerEndpoint
    \<and> \<not> handshakeDone conn
    \<and> (\<forall>cd pe nt w fn args m. evaluateFault nt = Some (Unavailable m) \<longrightarrow>
          evaluate cd pe nt w fn args = (Inl (EvaluateError fn (Transport m)), w))
    \<and> (\<forall>cd pe nt w fn args m. endorseFault nt = Some (Unavailable m) \<longrightarrow>
          submit cd pe nt w fn args = (Inl (EndorseError (transactionID nt) (Transport m)), w))"
  using assms
  by (auto simp: newGrpcConnection_def grpc_Dial_def AddCert_def NewCertPool_def
        NewClientTLSFromCert_def Let_def evaluate_def submit_def
        split: sum.splits option.splits)

theorem newGrpcConnection_pinned_trust_witness:
  "newGrpcConnection sampleOs sampleLib [] =
     (Inr \<lparr>target = peerEndpoint,
           credentials = \<lparr>rootCAs = [Certificate ''tls-ca-pem''], serverName = gatewayPeer\<rparr>,
           handshakeDone = False\<rparr>, [tlsCertPath])
   \<and> evaluate compactCodec healthyPeer
        ((healthyNet ''tx5'')\<lparr>evaluateFault := Some (Unavailable ''connection refused'')\<rparr>)
        [] ''GetAllStudents'' []
      = (Inl (EvaluateError ''GetAllStudents'' (Transport ''connection refused'')), [])
   \<and> submit compactCodec healthyPeer
        ((healthyNet ''tx5'')\<lparr>endorseFault := Some (Unavailable ''connection refused'')\<rparr>)
        [] ''InitLedger'' []
      = (Inl (EndorseError ''tx5'' (Transport ''connection refused'')), [])"
proof -
  let ?e = "(healthyNet ''tx5'')\<lparr>evaluateFault := Some (Unavailable ''connection refused'')\<rparr>"
  let ?s = "(healthyNet ''tx5'')\<lparr>endorseFault := Some (Unavailable ''connection refused'')\<rparr>"
  have e: "evaluateFault ?e = Some (Unavailable ''connection refused'')"
    and s: "endorseFault ?s = Some (Unavailable ''connection refused'')"
    and tx: "transactionID ?s = ''tx5''"
    by (simp_all add: healthyNet_def)
  from newGrpcConnection_pinned_trust [OF sample_tls] e s tx sample_tls
  show ?thesis by simp
qed

subsection \<open>The routes and the two modes\<close>

lemma runHandler_calls:
  assumes "runHandler cd wb pe nt h c a r = (resp, a', r')"
  shows "\<exists>invs. calls r' = calls r @ invs \<and> length invs \<le> 1
     \<and> (\<forall>i \<in> set invs. mode i =
           (if h = H_getAllStudents \<or> h = H_getStudentByID then Evaluate else Submit))"
  using assms
  by (cases h)
    (auto simp: runHandler_def getAllStudents_def getStudentByID_def createStudent_def
       updateStudent_def deleteStudent_def initLedger_def Let_def
       EvaluateTransaction_effect SubmitTransaction_effect
       split: option.splits sum.splits prod.splits)

lemma setupRouter_GET:
  "setupRouter m p = Some (h, sid) \<Longrightarrow>
     (h = H_getAllStudents \<or> h = H_getStudentByID) = (m = GET)"
  by (auto simp: setupRouter_def split: list.splits if_splits)

lemma serveRequest_calls:
  assumes "serveRequest cd wb pe nt req a r = (resp, a', r')"
  shows "\<exists>invs. calls r' = calls r @ invs \<and> length invs \<le> 1
     \<and> (\<forall>i \<in> set invs. mode i = (if reqMethod req = GET then Evaluate else Submit))"
proof (cases "setupRouter (reqMethod req) (reqPath req)")
  case None
  with assms have "r' = r" by (simp add: serveRequest_def)
  then show ?thesis by simp
next
  case (Some hs)
  obtain h sid where hs: "hs = (h, sid)" by (cases hs)
  from assms Some hs
  have run: "runHandler cd wb pe nt h
      \<lparr>Param = (\<lambda>k. if k = ''id'' then sid else []), requestBody = reqBody req\<rparr> a r
      = (resp, a', r')"
    by (simp add: serveRequest_def)
  from setupRouter_GET Some hs
  have "(h = H_getAllStudents \<or> h = H_getStudentByID) = (reqMethod req = GET)" by simp
  with runHandler_calls [OF run] show ?thesis by simp
qed

text \<open>
  Claim C8. With the contract bound, the two reading routes, \<open>GET /api/students\<close> and
  \<open>GET /api/students/:id\<close>, each make one invocation in the evaluate mode and leave the
  ledger as it is; the four changing routes, create, update, delete and init-ledger,
  each make one invocation in the submit mode (create and update once the body binds).
  Serving any request whatever makes at most one invocation, and its mode is evaluate
  for a \<open>GET\<close> and submit otherwise: no operation goes to both modes.
\<close>

theorem routes_evaluate_or_submit:
  assumes init: "contract a = Some ct"
  shows
   "snd (snd (serveRequest cd wb pe nt
        \<lparr>reqMethod = GET, reqPath = [''api'', ''students''], reqBody = b\<rparr> a r))
      = r\<lparr>calls := calls r @
            [\<lparr>mode = Evaluate, operation = ''GetAllStudents'', arguments = []\<rparr>]\<rparr>
    \<and> (sid \<noteq> [] \<longrightarrow>
        snd (snd (serveRequest cd wb pe nt
          \<lparr>reqMethod = GET, reqPath = [''api'', ''students'', sid], reqBody = b\<rparr> a r))
        = r\<lparr>calls := calls r @
              [\<lparr>mode = Evaluate, operation = ''ReadStudent'', arguments = [sid]\<rparr>]\<rparr>)
    \<and> (\<forall>s. ShouldBindJSON wb b = Inr s \<longrightarrow>
        calls (snd (snd (serveRequest cd wb pe nt
          \<lparr>reqMethod = POST, reqPath = [''api'', ''students''], reqBody = b\<rparr> a r)))
        = calls r @
            [\<lparr>mode = Submit, operation = ''CreateStudent'',
              arguments = [apiID s, apiName s, apiDepartment s, apiYear s, apiCGPA s]\<rparr>])
    \<and> (\<forall>s. sid \<noteq> [] \<and> ShouldBindJSON wb b = Inr s \<longrightarrow>
        calls (snd (snd (serveRequest cd wb pe nt
          \<lparr>reqMethod = PUT, reqPath = [''api'', ''students'', sid], reqBody = b\<rparr> a r)))
        = calls r @
            [\<lparr>mode = Submit, operation = ''UpdateStudent'',
              arguments = [sid, apiName s, apiDepartment s, apiYear s, apiCGPA s]\<rparr>])
    \<and> (sid \<noteq> [] \<longrightarrow>
        calls (snd (snd (serveRequest cd wb pe nt
          \<lparr>reqMethod = DELETE, reqPath = [''api'', ''students'', sid], reqBody = b\<rparr> a r)))
        = calls r @
            [\<lparr>mode = Submit, operation = ''DeleteStudent'', arguments = [sid]\<rparr>])
    \<and> calls (snd (snd (serveRequest cd wb pe nt
          \<lparr>reqMethod = POST, reqPath = [''api'', ''init''], reqBody = b\<rparr> a r)))
        = calls r @ [\<lparr>mode = Submit, operation = ''InitLedger'', arguments = []\<rparr>]
    \<and> (\<forall>req. \<exists>invs. calls (snd (snd (serveRequest cd wb pe nt req a r))) = calls r @ invs
          \<and> length invs \<le> 1
          \<and> (\<forall>i \<in> set invs. mode i = (if reqMethod req = GET then Evaluate else Submit)))"
proof -
  have general: "\<exists>invs. calls (snd (snd (serveRequest cd wb pe nt req a r))) = calls r @ invs
          \<and> length invs \<le> 1
          \<and> (\<forall>i \<in> set invs. mode i = (if reqMethod req = GET then Evaluate else Submit))"
    for req
    using serveRequest_calls [of cd wb pe nt req a r]
    by (cases "serveRequest cd wb pe nt req a r") auto
  show ?thesis
    using init general
    by (simp add: serveRequest_def setupRouter_def runHandler_def getAllStudents_def
          getStudentByID_def createStudent_def updateStudent_def deleteStudent_def
          initLedger_def Let_def EvaluateTransaction_effect SubmitTransaction_effect
          split: option.splits sum.splits prod.splits)
qed

theorem routes_evaluate_or_submit_witness:
  "contract sampleApp = Some sampleContract
   \<and> ShouldBindJSON (sampleWeb sampleStudent) ''{}'' = Inr sampleStudent
   \<and> snd (snd (serveRequest compactCodec (sampleWeb sampleStudent) healthyPeer (healthyNet ''tx6'')
        \<lparr>reqMethod = GET, reqPath = [''api'', ''students''], reqBody = ''{}''\<rparr>
        sampleApp emptyRemote))
      = \<lparr>ledger = [],
         calls = [\<lparr>mode = Evaluate, operation = ''GetAllStudents'', arguments = []\<rparr>]\<rparr>
   \<and> snd (snd (serveRequest compactCodec (sampleWeb sampleStudent) healthyPeer (healthyNet ''tx6'')
        \<lparr>reqMethod = GET, reqPath = [''api'', ''students'', ''S1''], reqBody = ''{}''\<rparr>
        sampleApp emptyRemote))
      = \<lparr>ledger = [],
         calls = [\<lparr>mode = Evaluate, operation = ''ReadStudent'', arguments = [''S1'']\<rparr>]\<rparr>
   \<and> calls (snd (snd (serveRequest compactCodec (sampleWeb sampleStudent) healthyPeer
        (healthyNet ''tx6'')
        \<lparr>reqMethod = POST, reqPath = [''api'', ''students''], reqBody = ''{}''\<rparr>
        sampleApp emptyRemote)))
      = [\<lparr>mode = Submit, operation = ''CreateStudent'',
          arguments = [''STU001'', ''Alice'', ''Computer Science'', ''4'', ''9.2'']\<rparr>]
   \<and> calls (snd (snd (serveRequest compactCodec (sampleWeb sampleStudent) healthyPeer
        (healthyNet ''tx6'')
        \<lparr>reqMethod = PUT, reqPath = [''api'', ''students'', ''S1''], reqBody = ''{}''\<rparr>
        sampleApp emptyRemote)))
      = [\<lparr>mode = Submit, operation = ''UpdateStudent'',
          arguments = [''S1'', ''Alice'', ''Computer Science'', ''4'', ''9.2'']\<rparr>]
   \<and> calls (snd (snd (serveRequest compactCodec (sampleWeb sampleStudent) healthyPeer
        (healthyNet ''tx6'')
        \<lparr>reqMethod = DELETE, reqPath = [''api'', ''students'', ''S1''], reqBody = ''{}''\<rparr>
        sampleApp emptyRemote)))
      = [\<lparr>mode = Submit, operation = ''DeleteStudent'', arguments = [''S1'']\<rparr>]
   \<and> calls (snd (snd (serveRequest compactCodec (sampleWeb sampleStudent) healthyPeer
        (healthyNet ''tx6'')
        \<lparr>reqMethod = POST, reqPath = [''api'', ''init''], reqBody = ''{}''\<rparr>
        sampleApp emptyRemote)))
      = [\<lparr>mode = Submit, operation = ''InitLedger'', arguments = []\<rparr>]"
  using routes_evaluate_or_submit [OF sample_contract,
          of compactCodec "sampleWeb sampleStudent" healthyPeer "healthyNet ''tx6''"
             "''{}''" emptyRemote "''S1''"]
  by (simp add: sample_contract sample_bind emptyRemote_def sampleStudent_def)

subsection \<open>The timeouts of the session\<close>

text \<open>
  Claim C9. The session that \<open>initFabricClient\<close> opens has the four timeouts of the
  specification: 5 seconds for evaluation, 15 seconds for endorsement, 5 seconds for
  submission and 60 seconds for the commit status, a second being \<open>10\<^sup>9\<close> nanoseconds.
\<close>

theorem initFabricClient_timeouts:
  assumes "initFabricClient sys lb a = Inr a'"
  shows "\<exists>g. gw a' = Some g
    \<and> evaluateTimeout g = Some (5 * Second)
    \<and> endorseTimeout g = Some (15 * Second)
    \<and> submitTimeout g = Some (5 * Second)
    \<and> commitStatusTimeout g = Some (60 * Second)
    \<and> Second = 1000000000"
  using assms
  by (auto simp: initFabricClient_def client_Connect_def Let_def Minute_def Second_def
        split: prod.splits sum.splits if_splits)

theorem initFabricClient_timeouts_witness:
  "initFabricClient sampleOs sampleLib startApp = Inr sampleApp
   \<and> (\<exists>g. gw sampleApp = Some g
    \<and> evaluateTimeout g = Some (5 * Second)
    \<and> endorseTimeout g = Some (15 * Second)
    \<and> submitTimeout g = Some (5 * Second)
    \<and> commitStatusTimeout g = Some (60 * Second)
    \<and> Second = 1000000000)"
  using initFabricClient_timeouts [OF sample_init] sample_init by simp

subsection \<open>The session over the life of the server\<close>

lemma runHandler_app: "fst (snd (runHandler cd wb pe nt h c a r)) = a"
  by (cases h)
    (simp_all add: runHandler_def getAllStudents_def getStudentByID_def createStudent_def
       updateStudent_def deleteStudent_def initLedger_def Let_def
       split: option.splits sum.splits prod.splits)

lemma serveRequest_app: "fst (snd (serveRequest cd wb pe nt req a r)) = a"
  by (simp add: serveRequest_def runHandler_app split: option.splits prod.splits)

lemma serve_app: "fst (snd (serve cd wb reqs a r)) = a"
proof (induction reqs arbitrary: r)
  case Nil
  then show ?case by simp
next
  case (Cons x reqs)
  obtain req pe nt where x: "x = (req, pe, nt)" by (cases x)
  obtain resp a1 r1 where step: "serveRequest cd wb pe nt req a r = (resp, a1, r1)"
    by (cases "serveRequest cd wb pe nt req a r")
  with serveRequest_app [of cd wb pe nt req a r] have "a1 = a" by simp
  with Cons.IH [of r1] step x show ?case
    by (auto split: prod.splits)
qed

lemma initFabricClient_reads:
  assumes "initFabricClient sys lb a = Inr a'"
  shows "\<exists>c k. filesRead a' =
           filesRead a @ [tlsCertPath, path_Join sys certPath c, path_Join sys keyPath k]"
  using assms
  by (auto simp: initFabricClient_def newGrpcConnection_def newIdentity_def newSign_def
        readFirstFile_cases Let_def
        split: prod.splits sum.splits option.splits list.splits if_splits)

lemma initFabricClient_globals:
  assumes "initFabricClient sys lb a = Inr a'"
  shows "\<exists>g n ct. gw a' = Some g \<and> network a' = Some n \<and> contract a' = Some ct
           \<and> networkGateway n = g \<and> contractNetwork ct = n"
  using assms
  by (auto simp: initFabricClient_def Let_def GetNetwork_def GetContract_def
        split: prod.splits sum.splits)

lemma sample_serve:
  "serve compactCodec (sampleWeb sampleStudent)
     [(\<lparr>reqMethod = GET, reqPath = [''api'', ''students'', ''S1''], reqBody = []\<rparr>,
       healthyPeer, healthyNet ''tx8''),
      (\<lparr>reqMethod = DELETE, reqPath = [''api'', ''students'', ''S1''], reqBody = []\<rparr>,
       healthyPeer, healthyNet ''tx9'')]
     sampleApp emptyRemote
   = ([\<lparr>status = 404,
        body = ErrorMessage ''Student not found''
                 (GatewayFailure (EvaluateError ''ReadStudent''
                    (Application (DoesNotExist ''S1''))))\<rparr>,
       \<lparr>status = 500,
        body = ErrorMessage ''Failed to delete student''
                 (GatewayFailure (EndorseError ''tx9''
                    (Application (FunctionNotFound ''DeleteStudent''))))\<rparr>],
      sampleApp,
      \<lparr>ledger = [],
       calls = [\<lparr>mode = Evaluate, operation = ''ReadStudent'', arguments = [''S1'']\<rparr>,
                \<lparr>mode = Submit, operation = ''DeleteStudent'', arguments = [''S1'']\<rparr>]\<rparr>)"
  by (simp add: serveRequest_def setupRouter_def runHandler_def getStudentByID_def
        deleteStudent_def sample_contract EvaluateTransaction_effect SubmitTransaction_effect
        evaluate_def submit_def invoke_def transactions_def ReadStudent_def GetState_def healthyPeer_def
        healthyNet_def emptyRemote_def Let_def)

text \<open>
  Claim C10. Once \<open>initFabricClient\<close> has returned, serving any sequence of requests,
  whatever the peer and the network do meanwhile, leaves the package-level variables as
  start-up set them: the gateway, the network and the contract are the same, so the
  session keeps its channel, identity and signer. Start-up reads three files, the TLS
  certificate of the peer and the first entry of each credential directory, each once;
  no request reads a file.
\<close>

theorem session_fixed_after_startup:
  assumes init: "initFabricClient sys lb startApp = Inr a"
    and served: "serve cd wb reqs a r = (resps, a', r')"
  shows "a' = a
    \<and> gw a' = gw a \<and> network a' = network a \<and> contract a' = contract a
    \<and> (\<exists>g n ct. gw a = Some g \<and> network a = Some n \<and> contract a = Some ct)
    \<and> (\<exists>c k. filesRead a' = [tlsCertPath, path_Join sys certPath c, path_Join sys keyPath k])"
proof -
  from served serve_app [of cd wb reqs a r] have same: "a' = a" by simp
  from initFabricClient_reads [OF init]
  have "\<exists>c k. filesRead a = [tlsCertPath, path_Join sys certPath c, path_Join sys keyPath k]"
    by (simp add: startApp_def)
  moreover from initFabricClient_globals [OF init]
  have "\<exists>g n ct. gw a = Some g \<and> network a = Some n \<and> contract a = Some ct" by blast
  ultimately show ?thesis using same by simp
qed

theorem session_fixed_after_startup_witness:
  "initFabricClient sampleOs sampleLib startApp = Inr sampleApp
   \<and> fst (snd (serve compactCodec (sampleWeb sampleStudent)
       [(\<lparr>reqMethod = GET, reqPath = [''api'', ''students'', ''S1''], reqBody = []\<rparr>,
         healthyPeer, healthyNet ''tx8''),
        (\<lparr>reqMethod = DELETE, reqPath = [''api'', ''students'', ''S1''], reqBody = []\<rparr>,
         healthyPeer, healthyNet ''tx9'')]
       sampleApp emptyRemote)) = sampleApp
   \<and> filesRead sampleApp = [tlsCertPath, certPath @ ''/cert.pem'', keyPath @ ''/priv_sk'']"
  using session_fixed_after_startup [OF sample_init sample_serve] sample_init sample_serve
  by (simp add: sampleApp_def)

end
